theory Spec2Isabelle
  imports Main "HOL-Library.AList"
begin

section \<open>Python values\<close>

text \<open>
  The handler of \<^verbatim>\<open>synapse/handlers/device.py\<close> works on JSON-like Python values: the
  content of an EDU, the answer of a federation query, the rows of the store. A string
  is a unicode string of Python 2, as decoded JSON and the database give them; a \<open>char\<close>
  is one of its code points, below 256. A dict is an association list in the order in
  which Python iterates over it; its keys are strings, as JSON has them.
\<close>

datatype pyval =
    PNone
  | PBool bool
  | PInt int
  | PStr string
  | PList "pyval list"
  | PDict "(string \<times> pyval) list"

type_synonym dict = "(string \<times> pyval) list"

datatype error =
    KeyError string
  | IndexError
  | TypeError
  | AttributeError
  | StoreError nat string
  | NotFoundError
  | SynapseError nat string
  | TransportError string
  | UnicodeEncodeError

subsection \<open>\<^verbatim>\<open>str\<close>, \<^verbatim>\<open>len\<close>, indexing and iteration\<close>

fun dec_nat :: "nat \<Rightarrow> string" where
  "dec_nat n =
     (if n < 10 then [''0123456789'' ! n]
      else dec_nat (n div 10) @ [''0123456789'' ! (n mod 10)])"

declare dec_nat.simps [simp del]

definition dec_int :: "int \<Rightarrow> string" where
  "dec_int i = (if i < 0 then CHR ''-'' # dec_nat (nat (- i)) else dec_nat (nat i))"

fun join :: "string \<Rightarrow> string list \<Rightarrow> string" where
  "join sep [] = []"
| "join sep [x] = x"
| "join sep (x # y # ys) = x @ sep @ join sep (y # ys)"

text \<open>
  \<^verbatim>\<open>repr\<close> of a unicode string in Python 2: the quote is the double quote when the
  string has a single quote and no double quote; the quote and the backslash are
  escaped, so are tab, newline and carriage return, and every other code point below 32
  or from 127 on is written in hexadecimal.
\<close>

definition repr_quote :: "string \<Rightarrow> char" where
  "repr_quote s = (if CHR 0x27 \<in> set s \<and> CHR 0x22 \<notin> set s then CHR 0x22 else CHR 0x27)"

definition repr_char :: "char \<Rightarrow> char \<Rightarrow> string" where
  "repr_char quote c =
     (if c = quote \<or> c = CHR 0x5C then [CHR 0x5C, c]
      else if c = CHR 0x09 then [CHR 0x5C, CHR ''t'']
      else if c = CHR 0x0A then [CHR 0x5C, CHR ''n'']
      else if c = CHR 0x0D then [CHR 0x5C, CHR ''r'']
      else if (of_char c :: nat) < 32 \<or> 127 \<le> (of_char c :: nat)
      then [CHR 0x5C, CHR ''x'', ''0123456789abcdef'' ! (of_char c div 16),
            ''0123456789abcdef'' ! (of_char c mod 16)]
      else [c])"

definition repr_unicode :: "string \<Rightarrow> string" where
  "repr_unicode s =
     CHR ''u'' # repr_quote s # concat (map (repr_char (repr_quote s)) s) @ [repr_quote s]"

text \<open>
  \<^verbatim>\<open>repr\<close> of an integer: a number beyond the machine integers (of 64 bits) is a
  \<^verbatim>\<open>long\<close> and has the suffix \<^verbatim>\<open>L\<close>.
\<close>

definition repr_int :: "int \<Rightarrow> string" where
  "repr_int i = (if - (2 ^ 63) \<le> i \<and> i < 2 ^ 63 then dec_int i else dec_int i @ ''L'')"

fun py_repr :: "pyval \<Rightarrow> string" where
  "py_repr PNone = ''None''"
| "py_repr (PBool b) = (if b then ''True'' else ''False'')"
| "py_repr (PInt i) = repr_int i"
| "py_repr (PStr s) = repr_unicode s"
| "py_repr (PList xs) = ''['' @ join '', '' (map py_repr xs) @ '']''"
| "py_repr (PDict d) =
     ''{'' @ join '', '' (map (\<lambda>(k, v). repr_unicode k @ '': '' @ py_repr v) d) @ ''}''"

text \<open>
  \<^verbatim>\<open>str\<close>: a unicode string is encoded as ASCII, which raises \<^verbatim>\<open>UnicodeEncodeError\<close>
  when a code point is 128 or more; an integer is written without the suffix; every
  other value has the text of its \<^verbatim>\<open>repr\<close>.
\<close>

definition is_ascii :: "char \<Rightarrow> bool" where
  "is_ascii c = (\<not> digit7 c)"

fun py_str :: "pyval \<Rightarrow> error + string" where
  "py_str (PStr s) = (if list_all is_ascii s then Inr s else Inl UnicodeEncodeError)"
| "py_str (PInt i) = Inr (dec_int i)"
| "py_str v = Inr (py_repr v)"

fun py_len :: "pyval \<Rightarrow> error + nat" where
  "py_len (PList xs) = Inr (length xs)"
| "py_len (PStr s) = Inr (length s)"
| "py_len (PDict d) = Inr (length d)"
| "py_len v = Inl TypeError"

text \<open>\<^verbatim>\<open>v[0]\<close>\<close>

fun py_index0 :: "pyval \<Rightarrow> error + pyval" where
  "py_index0 (PList []) = Inl IndexError"
| "py_index0 (PList (x # xs)) = Inr x"
| "py_index0 (PStr []) = Inl IndexError"
| "py_index0 (PStr (c # cs)) = Inr (PStr [c])"
| "py_index0 (PDict d) = Inl (KeyError ''0'')"
| "py_index0 v = Inl TypeError"

text \<open>\<^verbatim>\<open>v[k]\<close> for a string \<open>k\<close>\<close>

fun py_getitem :: "pyval \<Rightarrow> string \<Rightarrow> error + pyval" where
  "py_getitem (PDict d) k = (case map_of d k of None \<Rightarrow> Inl (KeyError k) | Some v \<Rightarrow> Inr v)"
| "py_getitem v k = Inl TypeError"

text \<open>\<^verbatim>\<open>for x in v\<close>\<close>

fun py_iter :: "pyval \<Rightarrow> error + pyval list" where
  "py_iter (PList xs) = Inr xs"
| "py_iter (PStr s) = Inr (map (\<lambda>c. PStr [c]) s)"
| "py_iter (PDict d) = Inr (map (\<lambda>(k, v). PStr k) d)"
| "py_iter v = Inl TypeError"

text \<open>\<^verbatim>\<open>d[k]\<close> and \<^verbatim>\<open>d.get(k)\<close> on a dict\<close>

definition dict_item :: "dict \<Rightarrow> string \<Rightarrow> error + pyval" where
  "dict_item d k = (case map_of d k of None \<Rightarrow> Inl (KeyError k) | Some v \<Rightarrow> Inr v)"

definition dict_get :: "dict \<Rightarrow> string \<Rightarrow> pyval \<Rightarrow> pyval" where
  "dict_get d k dflt = (case map_of d k of None \<Rightarrow> dflt | Some v \<Rightarrow> v)"

text \<open>\<^verbatim>\<open>[f(x) for x in xs]\<close> where \<open>f\<close> may raise: the first error ends the comprehension.\<close>

fun map_err :: "('a \<Rightarrow> error + 'b) \<Rightarrow> 'a list \<Rightarrow> error + 'b list" where
  "map_err f [] = Inr []"
| "map_err f (x # xs) =
     (case f x of
        Inl e \<Rightarrow> Inl e
      | Inr y \<Rightarrow> (case map_err f xs of Inl e \<Rightarrow> Inl e | Inr ys \<Rightarrow> Inr (y # ys)))"

text \<open>\<^verbatim>\<open>s.upper()\<close>\<close>

definition upper_char :: "char \<Rightarrow> char" where
  "upper_char c =
     (case map_of (zip ''abcdefghijklmnopqrstuvwxyz'' ''ABCDEFGHIJKLMNOPQRSTUVWXYZ'') c of
        None \<Rightarrow> c
      | Some C \<Rightarrow> C)"

definition upper :: "string \<Rightarrow> string" where
  "upper s = map upper_char s"

section \<open>The homeserver and its collaborators\<close>

text \<open>
  The handler reaches the storage, the room state, the notifier and the federation layer
  through \<^verbatim>\<open>self.store\<close>, \<^verbatim>\<open>self.state\<close>, \<^verbatim>\<open>self.notifier\<close>, \<^verbatim>\<open>self.federation\<close> and
  \<^verbatim>\<open>self.federation_sender\<close>. None of them is part of \<^verbatim>\<open>device.py\<close>. The record \<open>world\<close>
  holds their state; what they send out is logged (\<open>events\<close>, \<open>pokes\<close>, \<open>queries\<close>), and
  what the outside decides is read from it: the answers of remote servers
  (\<open>fed_response\<close>), the random strings (\<open>rand\<close>) and the failure of a collaborator call
  (\<open>fault\<close>).
\<close>

datatype call =
    StoreDevice
  | GetDevicesByUser
  | GetLastClientIpByDevice
  | GetDevice
  | DeleteDevice
  | UserDeleteAccessTokens
  | DeleteE2eKeysByDevice
  | GetRoomsForUser
  | AddDeviceChangeToStreams
  | GetUserWhoseDevicesChanged
  | GetDeviceListRemoteExtremity
  | UpdateRemoteDeviceListCache
  | UpdateRemoteDeviceListCacheEntry
  | GetCurrentUserInRoom
  | OnNewEvent
  | SendDeviceMessages

record world =
  server_name :: string
  devices :: "(string \<times> string \<times> pyval) list"
  client_ips :: "((string \<times> string) \<times> dict) list"
  access_tokens :: "(string \<times> string \<times> string) list"
  e2e_keys :: "(string \<times> string \<times> pyval) list"
  rooms_for_user :: "string \<Rightarrow> string list"
  users_in_room :: "string \<Rightarrow> string list"
  stream_pos :: nat
  changes :: "(nat \<times> string \<times> pyval list \<times> string list) list"
  remote_extremity :: "string \<Rightarrow> pyval option"
  remote_cache :: "string \<Rightarrow> (pyval \<times> pyval) list"
  events :: "(nat \<times> string list) list"
  pokes :: "string list"
  queries :: "(string \<times> string) list"
  fed_response :: "nat \<Rightarrow> string \<Rightarrow> string \<Rightarrow> error + pyval"
  rand :: "nat \<Rightarrow> string"
  rand_count :: nat
  fault :: "call \<Rightarrow> error option"

subsection \<open>Calls that change the world or raise\<close>

type_synonym 'a io = "world \<Rightarrow> (error + 'a) \<times> world"

definition return :: "'a \<Rightarrow> 'a io" where
  "return x w = (Inr x, w)"

definition raise :: "error \<Rightarrow> 'a io" where
  "raise e w = (Inl e, w)"

text \<open>\<^verbatim>\<open>x = yield m; f(x)\<close>: an exception of \<open>m\<close> ends the function, what \<open>m\<close> did stays.\<close>

definition bind :: "'a io \<Rightarrow> ('a \<Rightarrow> 'b io) \<Rightarrow> 'b io" where
  "bind m f w = (case m w of (Inl e, w') \<Rightarrow> (Inl e, w') | (Inr x, w') \<Rightarrow> f x w')"

definition lift :: "error + 'a \<Rightarrow> 'a io" where
  "lift r w = (r, w)"

text \<open>A collaborator call fails when the world says so, before it does anything.\<close>

definition collab :: "call \<Rightarrow> 'a io \<Rightarrow> 'a io" where
  "collab c m w = (case fault w c of Some e \<Rightarrow> (Inl e, w) | None \<Rightarrow> m w)"

text \<open>\<^verbatim>\<open>for x in xs: yield f(x)\<close>\<close>

fun for_each :: "('a \<Rightarrow> unit io) \<Rightarrow> 'a list \<Rightarrow> unit io" where
  "for_each f [] w = (Inr (), w)"
| "for_each f (x # xs) w =
     (case f x w of (Inl e, w') \<Rightarrow> (Inl e, w') | (Inr u, w') \<Rightarrow> for_each f xs w')"

subsection \<open>Identifiers\<close>

text \<open>
  Modelled from the spec: \<^verbatim>\<open>synapse.types.get_domain_from_id\<close> is not part of
  \<^verbatim>\<open>device.py\<close>. The spec speaks of the domain component of a user id, which it compares
  with the origin server's name; it is the text after the first colon, and an id without
  a colon is invalid.
\<close>

definition get_domain_from_id :: "string \<Rightarrow> error + string" where
  "get_domain_from_id s =
     (case dropWhile (\<lambda>c. c \<noteq> CHR '':'') s of
        [] \<Rightarrow> Inl (SynapseError 400 ''Invalid ID'')
      | c # domain \<Rightarrow> Inr domain)"

text \<open>
  Modelled from the spec: \<^verbatim>\<open>hs.is_mine_id\<close> (whether the user id is local to this
  server).
\<close>

definition is_mine_id :: "string \<Rightarrow> bool io" where
  "is_mine_id user_id w =
     (case get_domain_from_id user_id of
        Inl e \<Rightarrow> (Inl e, w)
      | Inr domain \<Rightarrow> (Inr (domain = server_name w), w))"

text \<open>
  Modelled from the spec: \<^verbatim>\<open>stringutils.random_string\<close> (a short random token). The
  world supplies the strings, one per call.
\<close>

definition random_string :: "nat \<Rightarrow> string io" where
  "random_string n w = (Inr (rand w (rand_count w)), w\<lparr>rand_count := rand_count w + 1\<rparr>)"

subsection \<open>Storage\<close>

text \<open>
  Modelled from the spec: the storage layer (\<^verbatim>\<open>self.store\<close>) is not part of
  \<^verbatim>\<open>device.py\<close>. The table \<open>devices\<close> has one row (user id, device id, display name) for
  each device. \<^verbatim>\<open>store_device\<close> adds the row unless the device is known and answers
  whether it was newly created.
\<close>

definition device_exists :: "world \<Rightarrow> string \<Rightarrow> string \<Rightarrow> bool" where
  "device_exists w user_id device_id =
     ((user_id, device_id) \<in> set (map (\<lambda>(u, d, n). (u, d)) (devices w)))"

definition store_device :: "string \<Rightarrow> string \<Rightarrow> pyval \<Rightarrow> bool io" where
  "store_device user_id device_id initial_device_display_name =
     collab StoreDevice (\<lambda>w.
       if device_exists w user_id device_id then (Inr False, w)
       else (Inr True,
             w\<lparr>devices := devices w @ [(user_id, device_id, initial_device_display_name)]\<rparr>))"

definition device_row :: "string \<times> string \<times> pyval \<Rightarrow> dict" where
  "device_row r =
     (case r of (u, d, n) \<Rightarrow>
        [(''user_id'', PStr u), (''device_id'', PStr d), (''display_name'', n)])"

text \<open>
  Modelled from the spec: \<^verbatim>\<open>store.get_device\<close> signals an absent device with the
  storage error of code 404.
\<close>

definition store_get_device :: "string \<Rightarrow> string \<Rightarrow> dict io" where
  "store_get_device user_id device_id =
     collab GetDevice (\<lambda>w.
       case filter (\<lambda>(u, d, n). (u, d) = (user_id, device_id)) (devices w) of
         [] \<Rightarrow> (Inl (StoreError 404 ''No row found''), w)
       | r # rs \<Rightarrow> (Inr (device_row r), w))"

text \<open>
  Modelled from the spec: \<^verbatim>\<open>store.get_devices_by_user\<close> answers a dict from device id
  to device.
\<close>

definition store_get_devices_by_user :: "string \<Rightarrow> (string \<times> dict) list io" where
  "store_get_devices_by_user user_id =
     collab GetDevicesByUser (\<lambda>w.
       (Inr (map (\<lambda>(u, d, n). (d, device_row (u, d, n)))
              (filter (\<lambda>(u, d, n). u = user_id) (devices w))), w))"

text \<open>
  Modelled from the spec: \<^verbatim>\<open>store.get_last_client_ip_by_device\<close> answers, for the
  devices asked for, a dict from (user id, device id) to the client-IP record of the
  device; a device without a record has no entry.
\<close>

definition get_last_client_ip_by_device ::
  "(string \<times> string) list \<Rightarrow> ((pyval \<times> pyval) \<times> dict) list io" where
  "get_last_client_ip_by_device devs =
     collab GetLastClientIpByDevice (\<lambda>w.
       (Inr (map (\<lambda>((u, d), r). ((PStr u, PStr d), r))
              (filter (\<lambda>(k, r). k \<in> set devs) (client_ips w))), w))"

text \<open>
  Modelled from the spec: \<^verbatim>\<open>store.delete_device\<close> signals not-found distinctly from
  other errors: the storage error of code 404.
\<close>

definition store_delete_device :: "string \<Rightarrow> string \<Rightarrow> unit io" where
  "store_delete_device user_id device_id =
     collab DeleteDevice (\<lambda>w.
       if device_exists w user_id device_id
       then (Inr (),
             w\<lparr>devices := filter (\<lambda>(u, d, n). (u, d) \<noteq> (user_id, device_id)) (devices w)\<rparr>)
       else (Inl (StoreError 404 ''No row found''), w))"

text \<open>
  Modelled from the spec: \<^verbatim>\<open>store.user_delete_access_tokens\<close> with a device id revokes
  the user's access tokens scoped to that device; \<open>access_tokens\<close> has one row (user id,
  device id, token) for each token.
\<close>

definition user_delete_access_tokens :: "string \<Rightarrow> string \<Rightarrow> unit io" where
  "user_delete_access_tokens user_id device_id =
     collab UserDeleteAccessTokens (\<lambda>w.
       (Inr (),
        w\<lparr>access_tokens :=
            filter (\<lambda>(u, d, t). (u, d) \<noteq> (user_id, device_id)) (access_tokens w)\<rparr>))"

text \<open>
  Modelled from the spec: \<^verbatim>\<open>store.delete_e2e_keys_by_device\<close> deletes the key material
  of the device; \<open>e2e_keys\<close> has one row (user id, device id, keys) for each device with
  keys.
\<close>

definition delete_e2e_keys_by_device :: "string \<Rightarrow> string \<Rightarrow> unit io" where
  "delete_e2e_keys_by_device user_id device_id =
     collab DeleteE2eKeysByDevice (\<lambda>w.
       (Inr (),
        w\<lparr>e2e_keys := filter (\<lambda>(u, d, k). (u, d) \<noteq> (user_id, device_id)) (e2e_keys w)\<rparr>))"

text \<open>
  Modelled from the spec: \<^verbatim>\<open>store.get_rooms_for_user\<close>. An entry of the answer is
  written as its \<^verbatim>\<open>room_id\<close>, the only field the handler reads.
\<close>

definition get_rooms_for_user :: "string \<Rightarrow> string list io" where
  "get_rooms_for_user user_id =
     collab GetRoomsForUser (\<lambda>w. (Inr (rooms_for_user w user_id), w))"

text \<open>
  Modelled from the spec: \<^verbatim>\<open>store.add_device_change_to_streams\<close> takes the next stream
  position and records the change (position, user id, device ids, hosts) there.
\<close>

definition add_device_change_to_streams ::
  "string \<Rightarrow> pyval list \<Rightarrow> string list \<Rightarrow> nat io" where
  "add_device_change_to_streams user_id device_ids hosts =
     collab AddDeviceChangeToStreams (\<lambda>w.
       (Inr (stream_pos w + 1),
        w\<lparr>stream_pos := stream_pos w + 1,
          changes := changes w @ [(stream_pos w + 1, user_id, device_ids, hosts)]\<rparr>))"

text \<open>
  Modelled from the spec: \<^verbatim>\<open>store.get_user_whose_devices_changed\<close> answers the users
  with a change at a stream position greater than \<open>from_key\<close>.
\<close>

definition get_user_whose_devices_changed :: "nat \<Rightarrow> string list io" where
  "get_user_whose_devices_changed from_key =
     collab GetUserWhoseDevicesChanged (\<lambda>w.
       (Inr (remdups (map (\<lambda>(p, u, ds, hs). u)
               (filter (\<lambda>(p, u, ds, hs). from_key < p) (changes w)))), w))"

text \<open>
  Modelled from the spec: the cache of remote device lists. \<open>remote_extremity\<close> is the
  stream extremity stored for a remote user (none before the first update),
  \<open>remote_cache\<close> the devices stored for the user, from device id to device info.
\<close>

definition get_device_list_remote_extremity :: "string \<Rightarrow> pyval io" where
  "get_device_list_remote_extremity user_id =
     collab GetDeviceListRemoteExtremity (\<lambda>w.
       (Inr (case remote_extremity w user_id of None \<Rightarrow> PNone | Some t \<Rightarrow> t), w))"

definition cache_row :: "pyval \<Rightarrow> error + pyval \<times> pyval" where
  "cache_row device =
     (case py_getitem device ''device_id'' of Inl e \<Rightarrow> Inl e | Inr d \<Rightarrow> Inr (d, device))"

text \<open>
  Modelled from the spec: \<^verbatim>\<open>store.update_remote_device_list_cache\<close> replaces the entry
  of the user wholesale: the devices are the given ones, the extremity the given stream
  id. It is one transaction: nothing is written when it fails.
\<close>

definition update_remote_device_list_cache :: "string \<Rightarrow> pyval \<Rightarrow> pyval \<Rightarrow> unit io" where
  "update_remote_device_list_cache user_id devs stream_id =
     collab UpdateRemoteDeviceListCache (\<lambda>w.
       case py_iter devs of
         Inl e \<Rightarrow> (Inl e, w)
       | Inr ds \<Rightarrow>
           (case map_err cache_row ds of
              Inl e \<Rightarrow> (Inl e, w)
            | Inr rows \<Rightarrow>
                (Inr (),
                 w\<lparr>remote_cache := (remote_cache w)(user_id := rows),
                   remote_extremity := (remote_extremity w)(user_id := Some stream_id)\<rparr>)))"

text \<open>
  Modelled from the spec: \<^verbatim>\<open>store.update_remote_device_list_cache_entry\<close> stores the
  info of one device and sets the extremity to the given stream id.
\<close>

definition update_remote_device_list_cache_entry ::
  "string \<Rightarrow> pyval \<Rightarrow> dict \<Rightarrow> pyval \<Rightarrow> unit io" where
  "update_remote_device_list_cache_entry user_id device_id content stream_id =
     collab UpdateRemoteDeviceListCacheEntry (\<lambda>w.
       (Inr (),
        w\<lparr>remote_cache :=
            (remote_cache w)
              (user_id := AList.update device_id (PDict content) (remote_cache w user_id)),
          remote_extremity := (remote_extremity w)(user_id := Some stream_id)\<rparr>))"

subsection \<open>Room state, notifier, federation\<close>

text \<open>Modelled from the spec: \<^verbatim>\<open>state.get_current_user_in_room\<close>.\<close>

definition get_current_user_in_room :: "string \<Rightarrow> string list io" where
  "get_current_user_in_room room_id =
     collab GetCurrentUserInRoom (\<lambda>w. (Inr (users_in_room w room_id), w))"

text \<open>
  Modelled from the spec: \<^verbatim>\<open>notifier.on_new_event("device_list_key", position, rooms)\<close>,
  the local fan-out.
\<close>

definition on_new_event :: "nat \<Rightarrow> string list \<Rightarrow> unit io" where
  "on_new_event position rooms =
     collab OnNewEvent (\<lambda>w. (Inr (), w\<lparr>events := events w @ [(position, rooms)]\<rparr>))"

text \<open>Modelled from the spec: \<^verbatim>\<open>federation_sender.send_device_messages\<close>, the poke.\<close>

definition send_device_messages :: "string \<Rightarrow> unit io" where
  "send_device_messages host =
     collab SendDeviceMessages (\<lambda>w. (Inr (), w\<lparr>pokes := pokes w @ [host]\<rparr>))"

text \<open>
  Modelled from the spec: \<^verbatim>\<open>federation.query_user_devices\<close>, the query to the origin
  for the full device list of a user. It may fail; the world holds the answer to the
  n-th query.
\<close>

definition query_user_devices :: "string \<Rightarrow> string \<Rightarrow> pyval io" where
  "query_user_devices origin user_id w =
     (fed_response w (length (queries w)) origin user_id,
      w\<lparr>queries := queries w @ [(origin, user_id)]\<rparr>)"

section \<open>The device handler\<close>

subsection \<open>\<^verbatim>\<open>notify_device_update\<close>\<close>

text \<open>
  The hosts are a Python set: a list without duplicates here. The loop over the rooms
  adds the domain of every user in the room.
\<close>

fun add_hosts :: "string list \<Rightarrow> string list \<Rightarrow> string list io" where
  "add_hosts hosts [] w = (Inr hosts, w)"
| "add_hosts hosts (room_id # room_ids) w =
     (case get_current_user_in_room room_id w of
        (Inl e, w') \<Rightarrow> (Inl e, w')
      | (Inr users, w') \<Rightarrow>
          (case map_err get_domain_from_id users of
             Inl e \<Rightarrow> (Inl e, w')
           | Inr ds \<Rightarrow> add_hosts (remdups (hosts @ ds)) room_ids w'))"

definition notify_device_update :: "string \<Rightarrow> pyval list \<Rightarrow> unit io" where
  "notify_device_update user_id device_ids =
     bind (get_rooms_for_user user_id) (\<lambda>room_ids.
     bind (is_mine_id user_id) (\<lambda>mine.
     bind (if mine
           then bind (add_hosts [] room_ids) (\<lambda>hosts. (\<lambda>w.
                  (Inr (filter (\<lambda>h. h \<noteq> server_name w) hosts), w)))
           else return []) (\<lambda>hosts.
     bind (add_device_change_to_streams user_id device_ids hosts) (\<lambda>position.
     bind (on_new_event position room_ids) (\<lambda>u.
     for_each send_device_messages hosts)))))"

subsection \<open>\<^verbatim>\<open>check_device_registered\<close>\<close>

text \<open>The loop of the source: at most five candidates.\<close>

function autogen_device_id :: "string \<Rightarrow> pyval \<Rightarrow> nat \<Rightarrow> string io" where
  "autogen_device_id user_id initial_device_display_name attempts w =
     (if attempts < 5 then
        (case random_string 10 w of
           (Inl e, w1) \<Rightarrow> (Inl e, w1)
         | (Inr s, w1) \<Rightarrow>
             (case store_device user_id (upper s) initial_device_display_name w1 of
                (Inl e, w2) \<Rightarrow> (Inl e, w2)
              | (Inr new_device, w2) \<Rightarrow>
                  if new_device
                  then bind (notify_device_update user_id [PStr (upper s)])
                         (\<lambda>u. return (upper s)) w2
                  else autogen_device_id user_id initial_device_display_name
                         (attempts + 1) w2))
      else (Inl (StoreError 500 ''Couldn't generate a device ID.''), w))"
  by pat_completeness auto
termination
  by (relation "measure (\<lambda>(user_id, name, attempts, w). 5 - attempts)") auto

declare autogen_device_id.simps [simp del]

definition check_device_registered :: "string \<Rightarrow> string option \<Rightarrow> pyval \<Rightarrow> string io" where
  "check_device_registered user_id device_id initial_device_display_name =
     (case device_id of
        Some d \<Rightarrow>
          bind (store_device user_id d initial_device_display_name) (\<lambda>new_device.
          bind (if new_device then notify_device_update user_id [PStr d] else return ())
            (\<lambda>u. return d))
      | None \<Rightarrow> autogen_device_id user_id initial_device_display_name 0)"

subsection \<open>\<^verbatim>\<open>get_devices_by_user\<close> and \<^verbatim>\<open>get_device\<close>\<close>

text \<open>
  \<^verbatim>\<open>_update_device_from_client_ips\<close> changes the device in place; here it answers the
  changed device. \<^verbatim>\<open>device.update\<close> sets the two keys, in the place of a key that is
  there and at the end otherwise.
\<close>

definition update_device_from_client_ips ::
  "dict \<Rightarrow> ((pyval \<times> pyval) \<times> dict) list \<Rightarrow> error + dict" where
  "update_device_from_client_ips device ips =
     (case dict_item device ''user_id'' of
        Inl e \<Rightarrow> Inl e
      | Inr uid \<Rightarrow>
          (case dict_item device ''device_id'' of
             Inl e \<Rightarrow> Inl e
           | Inr did \<Rightarrow>
               (let ip = (case map_of ips (uid, did) of None \<Rightarrow> [] | Some r \<Rightarrow> r)
                in Inr (AList.update ''last_seen_ip'' (dict_get ip ''ip'' PNone)
                         (AList.update ''last_seen_ts'' (dict_get ip ''last_seen'' PNone)
                            device)))))"

definition get_devices_by_user :: "string \<Rightarrow> dict list io" where
  "get_devices_by_user user_id =
     bind (store_get_devices_by_user user_id) (\<lambda>device_map.
     bind (get_last_client_ip_by_device (map (\<lambda>(device_id, device). (user_id, device_id)) device_map))
       (\<lambda>ips.
     lift (map_err (\<lambda>(device_id, device). update_device_from_client_ips device ips) device_map)))"

text \<open>\<^verbatim>\<open>try: ... except errors.StoreError: raise errors.NotFoundError\<close>\<close>

definition get_device :: "string \<Rightarrow> string \<Rightarrow> dict io" where
  "get_device user_id device_id w =
     (case store_get_device user_id device_id w of
        (Inl (StoreError code msg), w') \<Rightarrow> (Inl NotFoundError, w')
      | (Inl e, w') \<Rightarrow> (Inl e, w')
      | (Inr device, w') \<Rightarrow>
          bind (get_last_client_ip_by_device [(user_id, device_id)]) (\<lambda>ips.
          lift (update_device_from_client_ips device ips)) w')"

subsection \<open>\<^verbatim>\<open>delete_device\<close>\<close>

text \<open>
  \<^verbatim>\<open>try: ... except errors.StoreError, e: if e.code == 404: pass else: raise\<close>, and
  the three calls that follow.
\<close>

definition delete_device :: "string \<Rightarrow> string \<Rightarrow> unit io" where
  "delete_device user_id device_id w =
     (case store_delete_device user_id device_id w of
        (Inl (StoreError code msg), w') \<Rightarrow>
          if code = 404
          then bind (user_delete_access_tokens user_id device_id) (\<lambda>u.
               bind (delete_e2e_keys_by_device user_id device_id) (\<lambda>u.
               notify_device_update user_id [PStr device_id])) w'
          else (Inl (StoreError code msg), w')
      | (Inl e, w') \<Rightarrow> (Inl e, w')
      | (Inr u, w') \<Rightarrow>
          bind (user_delete_access_tokens user_id device_id) (\<lambda>u.
          bind (delete_e2e_keys_by_device user_id device_id) (\<lambda>u.
          notify_device_update user_id [PStr device_id])) w')"

subsection \<open>\<^verbatim>\<open>get_device_list_changes\<close>\<close>

text \<open>
  The loop over the changed users; \<open>user_ids_changed\<close> is the set built so far.
  \<^verbatim>\<open>room_ids.intersection(...)\<close> is true when it is not empty.
\<close>

fun changed_in_rooms :: "string set \<Rightarrow> string set \<Rightarrow> string list \<Rightarrow> string set io" where
  "changed_in_rooms room_ids user_ids_changed [] w = (Inr user_ids_changed, w)"
| "changed_in_rooms room_ids user_ids_changed (other_user_id # changed) w =
     (case get_rooms_for_user other_user_id w of
        (Inl e, w') \<Rightarrow> (Inl e, w')
      | (Inr other_rooms, w') \<Rightarrow>
          changed_in_rooms room_ids
            (if room_ids \<inter> set other_rooms \<noteq> {}
             then insert other_user_id user_ids_changed else user_ids_changed)
            changed w')"

definition get_device_list_changes :: "string \<Rightarrow> string list \<Rightarrow> nat \<Rightarrow> string set io" where
  "get_device_list_changes user_id room_ids from_key =
     bind (get_user_whose_devices_changed from_key) (\<lambda>changed.
     changed_in_rooms (set room_ids) {} changed)"

subsection \<open>\<^verbatim>\<open>_incoming_device_list_update\<close>\<close>

text \<open>
  \<^verbatim>\<open>get_domain_from_id(user_id)\<close> splits the value read from the EDU, which only a
  string allows.
\<close>

fun str_value :: "pyval \<Rightarrow> error + string" where
  "str_value (PStr s) = Inr s"
| "str_value v = Inl AttributeError"

text \<open>
  The resync decision: \<^verbatim>\<open>resync = True\<close>, unless \<^verbatim>\<open>prev_ids\<close> has length one and the
  string of its element is the string of the stored extremity. \<^verbatim>\<open>str(extremity)\<close> is
  taken first, then \<^verbatim>\<open>str(prev_ids[0])\<close>; either may raise.
\<close>

definition resync_decision :: "string \<Rightarrow> pyval \<Rightarrow> bool io" where
  "resync_decision user_id prev_ids =
     bind (lift (py_len prev_ids)) (\<lambda>n.
       if n = 1
       then bind (get_device_list_remote_extremity user_id) (\<lambda>extremity.
            bind (lift (py_str extremity)) (\<lambda>extremity_str.
            bind (lift (py_index0 prev_ids)) (\<lambda>prev_id.
            bind (lift (py_str prev_id)) (\<lambda>prev_id_str.
            return (extremity_str \<noteq> prev_id_str)))))
       else return True)"

text \<open>
  \<^verbatim>\<open>content = dict(edu_content)\<close> without the keys \<^verbatim>\<open>"user_id"\<close>, \<^verbatim>\<open>"device_id"\<close>,
  \<^verbatim>\<open>"stream_id"\<close> and \<^verbatim>\<open>"prev_ids"\<close>.
\<close>

definition edu_device_content :: "dict \<Rightarrow> dict" where
  "edu_device_content edu_content =
     AList.delete ''prev_ids'' (AList.delete ''stream_id''
       (AList.delete ''device_id'' (AList.delete ''user_id'' edu_content)))"

text \<open>
  The linearizer of the source lets one update of a user run at a time; a call here runs
  from its start to its end, so it needs no model.
\<close>

definition incoming_device_list_update :: "string \<Rightarrow> dict \<Rightarrow> unit io" where
  "incoming_device_list_update origin edu_content =
     bind (lift (dict_item edu_content ''user_id'')) (\<lambda>user_id.
     bind (lift (dict_item edu_content ''device_id'')) (\<lambda>device_id.
     bind (lift (dict_item edu_content ''stream_id'')) (\<lambda>stream_id.
     bind (return (dict_get edu_content ''prev_id'' (PList []))) (\<lambda>prev_ids.
     bind (lift (str_value user_id)) (\<lambda>user.
     bind (lift (get_domain_from_id user)) (\<lambda>domain.
       if domain \<noteq> origin then return ()
       else
         bind (resync_decision user prev_ids) (\<lambda>resync.
           if resync
           then
             bind (query_user_devices origin user) (\<lambda>result.
             bind (lift (py_getitem result ''stream_id'')) (\<lambda>stream_id.
             bind (lift (py_getitem result ''devices'')) (\<lambda>devs.
             bind (update_remote_device_list_cache user devs stream_id)
               (\<lambda>u.
             bind (lift (case py_iter devs of
                           Inl e \<Rightarrow> Inl e
                         | Inr ds \<Rightarrow> map_err (\<lambda>device. py_getitem device ''device_id'') ds))
               (\<lambda>device_ids.
             notify_device_update user device_ids)))))
           else
             bind (update_remote_device_list_cache_entry user device_id
                     (edu_device_content edu_content) stream_id) (\<lambda>u.
             notify_device_update user [device_id]))))))))"

section \<open>Example worlds\<close>

text \<open>
  The server \<^verbatim>\<open>home\<close> with the local user \<^verbatim>\<open>@a:home\<close>, who has the device \<^verbatim>\<open>D1\<close>
  and shares the room \<^verbatim>\<open>!r1\<close> with the remote user \<^verbatim>\<open>@b:remote\<close>, whose cached device
  list is at the extremity \<^verbatim>\<open>6\<close>. Queries to remote servers time out.
\<close>

definition home :: world where
  "home =
     \<lparr>server_name = ''home'',
      devices = [(''@a:home'', ''D1'', PNone)],
      client_ips =
        [((''@a:home'', ''D1''),
          [(''user_id'', PStr ''@a:home''), (''device_id'', PStr ''D1''),
           (''ip'', PStr ''10.0.0.1''), (''last_seen'', PInt 1000)])],
      access_tokens = [(''@a:home'', ''D1'', ''token1'')],
      e2e_keys = [(''@a:home'', ''D1'', PStr ''key1'')],
      rooms_for_user = (\<lambda>u. if u = ''@a:home'' \<or> u = ''@b:remote'' then [''!r1''] else []),
      users_in_room = (\<lambda>r. if r = ''!r1'' then [''@a:home'', ''@b:remote''] else []),
      stream_pos = 0,
      changes = [],
      remote_extremity = (\<lambda>u. if u = ''@b:remote'' then Some (PStr ''6'') else None),
      remote_cache = (\<lambda>u. []),
      events = [],
      pokes = [],
      queries = [],
      fed_response = (\<lambda>n origin user_id. Inl (TransportError ''timeout'')),
      rand = (\<lambda>n. ''abcdefghij''),
      rand_count = 0,
      fault = (\<lambda>c. None)\<rparr>"

section \<open>What the specification names\<close>

text \<open>
  The two fields that the client-IP store gives for a device: the time and the address
  it was last seen at, or null where the store has no record of the device.
\<close>

definition last_seen_fields :: "world \<Rightarrow> string \<Rightarrow> string \<Rightarrow> dict" where
  "last_seen_fields w user_id device_id =
     (case map_of (client_ips w) (user_id, device_id) of
        None \<Rightarrow> [(''last_seen_ts'', PNone), (''last_seen_ip'', PNone)]
      | Some r \<Rightarrow>
          [(''last_seen_ts'', dict_get r ''last_seen'' PNone),
           (''last_seen_ip'', dict_get r ''ip'' PNone)])"

text \<open>
  A change notification is a call of \<^verbatim>\<open>notify_device_update\<close> that recorded its change:
  the user and the device ids of each change of the stream, in order.
\<close>

definition notifications :: "world \<Rightarrow> (string \<times> pyval list) list" where
  "notifications w = map (\<lambda>(p, u, ds, hs). (u, ds)) (changes w)"

text \<open>
  \<^verbatim>\<open>notify_device_update\<close> needs the domain of the user and, for a local user, the
  domains of the users in the rooms of the user: the ids have to be valid.
\<close>

definition valid_id :: "string \<Rightarrow> bool" where
  "valid_id s = (CHR '':'' \<in> set s)"

definition can_notify :: "world \<Rightarrow> string \<Rightarrow> bool" where
  "can_notify w user_id =
     (valid_id user_id \<and>
      (if get_domain_from_id user_id = Inr (server_name w)
       then list_all (\<lambda>room_id. list_all valid_id (users_in_room w room_id))
              (rooms_for_user w user_id)
       else True))"

text \<open>What a notification leaves as it is: all but the stream, the events and the pokes.\<close>

definition notif_only :: "world \<Rightarrow> world \<Rightarrow> bool" where
  "notif_only w w' =
     (server_name w' = server_name w \<and> devices w' = devices w \<and>
      client_ips w' = client_ips w \<and> access_tokens w' = access_tokens w \<and>
      e2e_keys w' = e2e_keys w \<and> rooms_for_user w' = rooms_for_user w \<and>
      users_in_room w' = users_in_room w \<and> remote_extremity w' = remote_extremity w \<and>
      remote_cache w' = remote_cache w \<and> queries w' = queries w \<and>
      fed_response w' = fed_response w \<and> rand w' = rand w \<and>
      rand_count w' = rand_count w \<and> fault w' = fault w)"

text \<open>
  The candidates of \<^verbatim>\<open>check_device_registered\<close> without a device id: the \<open>i\<close>-th
  random string from now on, in upper case.
\<close>

definition candidate :: "world \<Rightarrow> nat \<Rightarrow> string" where
  "candidate w i = upper (rand w (rand_count w + i))"

text \<open>
  The world \<open>home\<close> where \<^verbatim>\<open>@a:home\<close> also has the device \<^verbatim>\<open>ABCDEFGHIJ\<close>, the one every
  random string of \<open>home\<close> gives.
\<close>

definition crowded :: world where
  "crowded = home\<lparr>devices := devices home @ [(''@a:home'', ''ABCDEFGHIJ'', PNone)]\<rparr>"

text \<open>The users with a change of their device list after the stream position \<open>from_key\<close>.\<close>

definition changed_since :: "world \<Rightarrow> nat \<Rightarrow> string set" where
  "changed_since w from_key =
     set (map (\<lambda>(p, u, ds, hs). u) (filter (\<lambda>(p, u, ds, hs). from_key < p) (changes w)))"

text \<open>The world \<open>home\<close> after \<^verbatim>\<open>@a:home\<close> registered the device \<^verbatim>\<open>D1\<close>.\<close>

definition home_changed :: world where
  "home_changed =
     home\<lparr>stream_pos := 1, changes := [(1, ''@a:home'', [PStr ''D1''], [''remote''])]\<rparr>"

text \<open>
  An inbound EDU of the shape the specification gives: the user id is a string, the
  device id and the stream id are there, and \<^verbatim>\<open>prev_id\<close> is a list or is missing (the
  empty list then).
\<close>

definition edu_for :: "dict \<Rightarrow> string \<Rightarrow> pyval \<Rightarrow> pyval \<Rightarrow> pyval list \<Rightarrow> bool" where
  "edu_for edu_content user_id device_id stream_id prev_ids =
     (dict_item edu_content ''user_id'' = Inr (PStr user_id) \<and>
      dict_item edu_content ''device_id'' = Inr device_id \<and>
      dict_item edu_content ''stream_id'' = Inr stream_id \<and>
      dict_get edu_content ''prev_id'' (PList []) = PList prev_ids)"

text \<open>The stream extremity the cache has for a remote user; \<^verbatim>\<open>None\<close> without one.\<close>

definition stored_extremity :: "world \<Rightarrow> string \<Rightarrow> pyval" where
  "stored_extremity w user_id =
     (case remote_extremity w user_id of None \<Rightarrow> PNone | Some t \<Rightarrow> t)"

text \<open>
  The condition of the specification for the incremental path: exactly one previous id,
  with the string form of the stored extremity.
\<close>

fun prev_matches :: "pyval list \<Rightarrow> pyval \<Rightarrow> bool" where
  "prev_matches [prev_id] extremity =
     (case py_str extremity of
        Inl e \<Rightarrow> False
      | Inr a \<Rightarrow> (case py_str prev_id of Inl e \<Rightarrow> False | Inr b \<Rightarrow> a = b))"
| "prev_matches prev_ids extremity = False"

text \<open>
  A value has a string form when \<^verbatim>\<open>str\<close> does not raise on it. The comparison of the
  decision needs the string forms of the stored extremity and of a single previous id.
\<close>

definition has_str :: "pyval \<Rightarrow> bool" where
  "has_str v = (case py_str v of Inl e \<Rightarrow> False | Inr s \<Rightarrow> True)"

fun comparable :: "pyval list \<Rightarrow> pyval \<Rightarrow> bool" where
  "comparable [prev_id] extremity = (has_str extremity \<and> has_str prev_id)"
| "comparable prev_ids extremity = True"


text \<open>
  The EDU of the specification's scenario: \<^verbatim>\<open>@b:remote\<close> announces the device \<^verbatim>\<open>D9\<close>
  at the stream id \<^verbatim>\<open>7\<close>, after \<^verbatim>\<open>6\<close>, with one more field.
\<close>

definition edu_d9 :: dict where
  "edu_d9 =
     [(''user_id'', PStr ''@b:remote''), (''device_id'', PStr ''D9''),
      (''stream_id'', PStr ''7''), (''prev_id'', PList [PStr ''6'']),
      (''keys'', PStr ''k'')]"



text \<open>
  The world \<open>home\<close> with the stored extremity \<^verbatim>\<open>5\<close> for \<^verbatim>\<open>@b:remote\<close>, and the same where
  the origin answers a query with the device list at the stream id \<^verbatim>\<open>9\<close>.
\<close>

definition home5 :: world where
  "home5 = home\<lparr>remote_extremity := (\<lambda>u. if u = ''@b:remote'' then Some (PStr ''5'') else None)\<rparr>"




text \<open>
  What the specification says of a change notification: for a local user, the interested
  hosts are the servers of the members of the rooms of the user, without this server; for
  a user of another server there are none. The notification takes the next stream
  position, records the change with the hosts there, tells the notifier the position and
  the rooms of the user, and pokes every interested host. \<open>notified\<close> is the world after
  it.
\<close>

definition domain_of :: "string \<Rightarrow> string" where
  "domain_of s = (case get_domain_from_id s of Inl e \<Rightarrow> [] | Inr d \<Rightarrow> d)"

definition interested_hosts :: "world \<Rightarrow> string \<Rightarrow> string list" where
  "interested_hosts w user_id =
     (if get_domain_from_id user_id = Inr (server_name w)
      then filter (\<lambda>h. h \<noteq> server_name w)
             (remdups (concat (map (\<lambda>room_id. map domain_of (users_in_room w room_id))
                                 (rooms_for_user w user_id))))
      else [])"

definition notified :: "world \<Rightarrow> string \<Rightarrow> pyval list \<Rightarrow> world" where
  "notified w user_id device_ids =
     w\<lparr>stream_pos := stream_pos w + 1,
       changes := changes w @
         [(stream_pos w + 1, user_id, device_ids, interested_hosts w user_id)],
       events := events w @ [(stream_pos w + 1, rooms_for_user w user_id)],
       pokes := pokes w @ interested_hosts w user_id\<rparr>"

section \<open>Theorems\<close>

subsection \<open>C8: \<^verbatim>\<open>get_device\<close> and storage errors\<close>

text \<open>
  C8 says that \<^verbatim>\<open>get_device\<close> fails with NotFound exactly when the device is absent and
  that a storage error which does not signal not-found reaches the caller unchanged.
  The handler catches every \<^verbatim>\<open>StoreError\<close>, whatever its code: in the world \<open>home\<close>, where
  the device \<^verbatim>\<open>D1\<close> of \<^verbatim>\<open>@a:home\<close> exists, a storage failure of code 500 comes out of
  \<^verbatim>\<open>get_device\<close> as \<^verbatim>\<open>NotFoundError\<close>. (\<^verbatim>\<open>delete_device\<close> and \<^verbatim>\<open>update_device\<close> look at
  the code and raise again unless it is 404.)
\<close>

theorem get_device_storeerror_500:
  "device_exists home ''@a:home'' ''D1'' \<and>
   fst (get_device ''@a:home'' ''D1''
     (home\<lparr>fault := (fault home)(GetDevice := Some (StoreError 500 ''database is down''))\<rparr>))
   = Inl NotFoundError"
  by (simp add: get_device_def store_get_device_def collab_def home_def device_exists_def)

subsection \<open>C10: the devices that \<^verbatim>\<open>get_device\<close> and \<^verbatim>\<open>get_devices_by_user\<close> answer\<close>

lemma map_err_all_ok:
  "(\<And>x. x \<in> set xs \<Longrightarrow> f x = Inr (g x)) \<Longrightarrow> map_err f xs = Inr (map g xs)"
  by (induction xs) auto

lemma client_ip_lookup:
  "(u, d) \<in> set devs \<Longrightarrow>
   map_of (map (\<lambda>((u, d), r). ((PStr u, PStr d), r)) (filter (\<lambda>(k, r). k \<in> set devs) ips))
     (PStr u, PStr d) = map_of ips (u, d)"
  by (induction ips) auto

lemma update_device_row:
  "map_of ips (PStr u, PStr d) = map_of (client_ips w) (u, d) \<Longrightarrow>
   update_device_from_client_ips (device_row (u, d, n)) ips
     = Inr (device_row (u, d, n) @ last_seen_fields w u d)"
  by (simp add: update_device_from_client_ips_def device_row_def dict_item_def dict_get_def
      last_seen_fields_def split: option.splits)

lemma get_devices_by_user_eq:
  assumes "fault w GetDevicesByUser = None" "fault w GetLastClientIpByDevice = None"
  shows "get_devices_by_user u w =
     (Inr (map (\<lambda>(u', d, n). device_row (u', d, n) @ last_seen_fields w u' d)
             (filter (\<lambda>(u', d, n). u' = u) (devices w))), w)"
proof -
  let ?rows = "filter (\<lambda>(u', d, n). u' = u) (devices w)"
  let ?dm = "map (\<lambda>(u, d, n). (d, device_row (u, d, n))) ?rows"
  let ?devs = "map (\<lambda>(device_id, device). (u, device_id)) ?dm"
  let ?ips = "map (\<lambda>((u, d), r). ((PStr u, PStr d), r))
                (filter (\<lambda>(k, r). k \<in> set ?devs) (client_ips w))"
  have "map_err (\<lambda>(device_id, device). update_device_from_client_ips device ?ips) ?dm
        = Inr (map (\<lambda>(device_id, device). device @ last_seen_fields w u device_id) ?dm)"
  proof (rule map_err_all_ok)
    fix x assume "x \<in> set ?dm"
    then obtain d n where x: "x = (d, device_row (u, d, n))" and r: "(u, d, n) \<in> set (devices w)"
      by auto
    have "(u, d) \<in> set ?devs" using r by force
    then have "map_of ?ips (PStr u, PStr d) = map_of (client_ips w) (u, d)"
      by (rule client_ip_lookup)
    then show "(case x of (device_id, device) \<Rightarrow> update_device_from_client_ips device ?ips)
        = Inr (case x of (device_id, device) \<Rightarrow> device @ last_seen_fields w u device_id)"
      by (simp add: x update_device_row)
  qed
  also have "map (\<lambda>(device_id, device). device @ last_seen_fields w u device_id) ?dm
      = map (\<lambda>(u', d, n). device_row (u', d, n) @ last_seen_fields w u' d) ?rows"
    by auto
  finally have s3: "map_err (\<lambda>(device_id, device). update_device_from_client_ips device ?ips) ?dm
      = Inr (map (\<lambda>(u', d, n). device_row (u', d, n) @ last_seen_fields w u' d) ?rows)" .
  have s1: "store_get_devices_by_user u w = (Inr ?dm, w)"
    using assms by (simp add: store_get_devices_by_user_def collab_def)
  have s2: "get_last_client_ip_by_device ?devs w = (Inr ?ips, w)"
    using assms by (simp add: get_last_client_ip_by_device_def collab_def)
  show ?thesis
    by (simp only: get_devices_by_user_def bind_def lift_def s1 s2 s3 prod.case sum.case)
qed

lemma get_device_eq:
  assumes "fault w GetDevice = None" "fault w GetLastClientIpByDevice = None"
  shows "get_device u d w =
     (case filter (\<lambda>(u', d', n). (u', d') = (u, d)) (devices w) of
        [] \<Rightarrow> (Inl NotFoundError, w)
      | r # rs \<Rightarrow> (Inr (device_row r @ last_seen_fields w u d), w))"
proof (cases "filter (\<lambda>(u', d', n). (u', d') = (u, d)) (devices w)")
  case Nil
  then show ?thesis using assms
    by (simp add: get_device_def store_get_device_def collab_def)
next
  case (Cons r rs)
  then have "r \<in> set (filter (\<lambda>(u', d', n). (u', d') = (u, d)) (devices w))" by simp
  then obtain n where r: "r = (u, d, n)" by auto
  have "map_of (map (\<lambda>((u, d), r). ((PStr u, PStr d), r))
          (filter (\<lambda>(k, r). k \<in> set [(u, d)]) (client_ips w))) (PStr u, PStr d)
        = map_of (client_ips w) (u, d)"
    by (rule client_ip_lookup) simp
  then show ?thesis using assms Cons r
    by (simp add: get_device_def store_get_device_def collab_def bind_def lift_def
        get_last_client_ip_by_device_def update_device_row)
qed

text \<open>
  C10: when the storage calls do not fail, every device that \<^verbatim>\<open>get_devices_by_user\<close>
  and \<^verbatim>\<open>get_device\<close> answer is the stored device (user id, device id, display name)
  followed by the two fields \<^verbatim>\<open>last_seen_ts\<close> and \<^verbatim>\<open>last_seen_ip\<close>, taken from the
  client-IP record of that (user id, device id), or null when there is no record. Both
  calls leave the world as it is; \<^verbatim>\<open>get_device\<close> raises \<^verbatim>\<open>NotFoundError\<close> when the
  device is not stored.
\<close>

theorem device_records_augmented:
  assumes "fault w GetDevicesByUser = None" and "fault w GetDevice = None"
    and "fault w GetLastClientIpByDevice = None"
  shows "get_devices_by_user u w =
           (Inr (map (\<lambda>(u', d, n). device_row (u', d, n) @ last_seen_fields w u' d)
                   (filter (\<lambda>(u', d, n). u' = u) (devices w))), w) \<and>
         get_device u d w =
           (case filter (\<lambda>(u', d', n). (u', d') = (u, d)) (devices w) of
              [] \<Rightarrow> (Inl NotFoundError, w)
            | r # rs \<Rightarrow> (Inr (device_row r @ last_seen_fields w u d), w))"
  using assms get_devices_by_user_eq [of w u] get_device_eq [of w u d] by simp

theorem device_records_augmented_witness:
  "fault home GetDevicesByUser = None \<and> fault home GetDevice = None \<and>
   fault home GetLastClientIpByDevice = None \<and>
   get_devices_by_user ''@a:home'' home =
     (Inr [[(''user_id'', PStr ''@a:home''), (''device_id'', PStr ''D1''),
            (''display_name'', PNone), (''last_seen_ts'', PInt 1000),
            (''last_seen_ip'', PStr ''10.0.0.1'')]], home) \<and>
   get_device ''@a:home'' ''D1'' home =
     (Inr [(''user_id'', PStr ''@a:home''), (''device_id'', PStr ''D1''),
           (''display_name'', PNone), (''last_seen_ts'', PInt 1000),
           (''last_seen_ip'', PStr ''10.0.0.1'')], home) \<and>
   get_device ''@a:home'' ''D2'' home = (Inl NotFoundError, home)"
proof -
  have f: "fault home GetDevicesByUser = None" "fault home GetDevice = None"
    "fault home GetLastClientIpByDevice = None"
    by (simp_all add: home_def)
  have d: "devices home = [(''@a:home'', ''D1'', PNone)]"
    by (simp add: home_def)
  have l: "last_seen_fields home ''@a:home'' ''D1''
      = [(''last_seen_ts'', PInt 1000), (''last_seen_ip'', PStr ''10.0.0.1'')]"
    by (simp add: last_seen_fields_def home_def dict_get_def)
  show ?thesis
    using device_records_augmented [OF f, of "''@a:home''" "''D1''"]
      device_records_augmented [OF f, of "''@a:home''" "''D2''"]
    by (simp add: f d l device_row_def)
qed

subsection \<open>\<^verbatim>\<open>notify_device_update\<close>\<close>

lemma notif_only_refl: "notif_only w w"
  by (simp add: notif_only_def)

lemma notif_only_trans: "notif_only a b \<Longrightarrow> notif_only b c \<Longrightarrow> notif_only a c"
  by (simp add: notif_only_def)

lemma add_hosts_world: "snd (add_hosts hs rs w) = w"
  by (induction rs arbitrary: hs)
     (auto simp: get_current_user_in_room_def collab_def split: option.splits sum.splits)

lemma send_all_frame: "notif_only w (snd (for_each send_device_messages hs w))"
proof (induction hs arbitrary: w)
  case Nil
  show ?case by (simp add: notif_only_def)
next
  case (Cons h hs)
  show ?case
  proof (cases "fault w SendDeviceMessages")
    case None
    have "notif_only w (w\<lparr>pokes := pokes w @ [h]\<rparr>)" by (simp add: notif_only_def)
    then show ?thesis using Cons [of "w\<lparr>pokes := pokes w @ [h]\<rparr>"] None
      by (auto simp: send_device_messages_def collab_def intro: notif_only_trans)
  next
    case (Some e)
    then show ?thesis by (simp add: send_device_messages_def collab_def notif_only_def)
  qed
qed


lemma notif_only_bind:
  assumes "\<And>w. notif_only w (snd (m w))" and "\<And>x w. notif_only w (snd (f x w))"
  shows "notif_only w (snd (bind m f w))"
proof (cases "m w")
  case (Pair r w1)
  have 1: "notif_only w w1" using assms(1) [of w] Pair by simp
  show ?thesis
  proof (cases r)
    case (Inl e)
    then show ?thesis using Pair 1 by (simp add: bind_def)
  next
    case (Inr x)
    then show ?thesis using Pair notif_only_trans [OF 1 assms(2) [of w1 x]]
      by (simp add: bind_def)
  qed
qed

lemma notif_only_collab:
  assumes "\<And>w. notif_only w (snd (m w))"
  shows "notif_only w (snd (collab c m w))"
  using assms by (simp add: collab_def notif_only_refl split: option.splits)

lemma hosts_frame:
  "notif_only w (snd (bind (add_hosts [] room_ids)
     (\<lambda>hosts. (\<lambda>w. (Inr (filter (\<lambda>h. h \<noteq> server_name w) hosts), w))) w))"
proof -
  have "snd (add_hosts [] room_ids w) = w" by (rule add_hosts_world)
  then show ?thesis
    by (cases "add_hosts [] room_ids w") (auto simp: bind_def notif_only_refl split: sum.splits)
qed

lemma notify_frame: "notif_only w (snd (notify_device_update u ds w))"
  unfolding notify_device_update_def
  by (intro notif_only_bind send_all_frame)
     (auto simp: get_rooms_for_user_def is_mine_id_def collab_def return_def
        add_device_change_to_streams_def on_new_event_def notif_only_def hosts_frame [unfolded notif_only_def]
        split: option.splits sum.splits)


lemma valid_id_domain: "valid_id s \<Longrightarrow> \<exists>d. get_domain_from_id s = Inr d"
  by (auto simp: valid_id_def get_domain_from_id_def dropWhile_eq_Nil_conv split: list.splits)

lemma domains_ok: "list_all valid_id us \<Longrightarrow> \<exists>ds. map_err get_domain_from_id us = Inr ds"
proof (induction us)
  case Nil
  show ?case by simp
next
  case (Cons x xs)
  then obtain d ds where "get_domain_from_id x = Inr d" "map_err get_domain_from_id xs = Inr ds"
    using valid_id_domain by fastforce
  then show ?case by simp
qed

lemma add_hosts_ok:
  assumes "fault w GetCurrentUserInRoom = None"
    and "list_all (\<lambda>r. list_all valid_id (users_in_room w r)) rs"
  shows "\<exists>hs'. add_hosts hs rs w = (Inr hs', w)"
  using assms(2)
proof (induction rs arbitrary: hs)
  case Nil
  show ?case by simp
next
  case (Cons r rs)
  then obtain ds where ds: "map_err get_domain_from_id (users_in_room w r) = Inr ds"
    using domains_ok by fastforce
  from Cons obtain hs' where "add_hosts (remdups (hs @ ds)) rs w = (Inr hs', w)"
    by fastforce
  then show ?case using assms(1) ds
    by (simp add: get_current_user_in_room_def collab_def)
qed

lemma send_all_ok:
  "fault w SendDeviceMessages = None \<Longrightarrow>
   for_each send_device_messages hs w = (Inr (), w\<lparr>pokes := pokes w @ hs\<rparr>)"
proof (induction hs arbitrary: w)
  case Nil
  show ?case by simp
next
  case (Cons h hs)
  have "fault (w\<lparr>pokes := pokes w @ [h]\<rparr>) SendDeviceMessages = None" using Cons.prems by simp
  from Cons.IH [OF this] show ?case using Cons.prems
    by (simp add: send_device_messages_def collab_def)
qed

lemma send_all_changes: "changes (snd (for_each send_device_messages hs w)) = changes w"
proof (induction hs arbitrary: w)
  case Nil
  show ?case by simp
next
  case (Cons h hs)
  show ?case using Cons [of "w\<lparr>pokes := pokes w @ [h]\<rparr>"]
    by (auto simp: send_device_messages_def collab_def split: option.splits)
qed

lemma notify_returns:
  assumes "notify_device_update u ds w = (Inr x, w')"
  shows "notifications w' = notifications w @ [(u, ds)]"
proof -
  have a: "\<And>hs rs w. snd (add_hosts hs rs w) = w" by (rule add_hosts_world)
  have b: "\<And>hs w. changes (snd (for_each send_device_messages hs w)) = changes w"
    by (rule send_all_changes)
  have "\<exists>hosts. changes w' = changes w @ [(stream_pos w + 1, u, ds, hosts)]"
    using assms unfolding notify_device_update_def bind_def
    by (auto simp: get_rooms_for_user_def is_mine_id_def collab_def return_def
        add_device_change_to_streams_def on_new_event_def
        split: option.splits sum.splits prod.splits if_splits
        dest!: arg_cong [where f = snd] simp: a b)
  then show ?thesis by (auto simp: notifications_def)
qed


lemma notify_ok:
  assumes nf: "fault w = (\<lambda>c. None)" and cn: "can_notify w u"
  shows "\<exists>w'. notify_device_update u ds w = (Inr (), w')"
proof -
  obtain d where d: "get_domain_from_id u = Inr d"
    using cn valid_id_domain by (auto simp: can_notify_def)
  have f: "\<And>c. fault w c = None" using nf by simp
  show ?thesis
  proof (cases "d = server_name w")
    case True
    then have "list_all (\<lambda>r. list_all valid_id (users_in_room w r)) (rooms_for_user w u)"
      using cn d by (simp add: can_notify_def)
    then obtain hs where hs: "add_hosts [] (rooms_for_user w u) w = (Inr hs, w)"
      using add_hosts_ok [OF f] by blast
    show ?thesis
      unfolding notify_device_update_def bind_def
      by (simp add: get_rooms_for_user_def is_mine_id_def collab_def return_def f d True hs
          add_device_change_to_streams_def on_new_event_def send_all_ok)
  next
    case False
    show ?thesis
      unfolding notify_device_update_def bind_def
      by (simp add: get_rooms_for_user_def is_mine_id_def collab_def return_def f d False
          add_device_change_to_streams_def on_new_event_def)
  qed
qed

lemma remdups_remdups_append: "remdups (remdups xs @ ys) = remdups (xs @ ys)"
  by (induction xs) auto

lemma domains_eq:
  "list_all valid_id us \<Longrightarrow> map_err get_domain_from_id us = Inr (map domain_of us)"
proof (induction us)
  case Nil
  show ?case by simp
next
  case (Cons x xs)
  then obtain d where "get_domain_from_id x = Inr d"
    using valid_id_domain by fastforce
  then show ?case using Cons by (simp add: domain_of_def)
qed

lemma add_hosts_eq:
  assumes "fault w GetCurrentUserInRoom = None"
    and "list_all (\<lambda>r. list_all valid_id (users_in_room w r)) rs"
    and "distinct hs"
  shows "add_hosts hs rs w =
     (Inr (remdups (hs @ concat (map (\<lambda>r. map domain_of (users_in_room w r)) rs))), w)"
  using assms(2,3)
proof (induction rs arbitrary: hs)
  case Nil
  then show ?case by (simp add: distinct_remdups_id)
next
  case (Cons r rs)
  have ds: "map_err get_domain_from_id (users_in_room w r)
      = Inr (map domain_of (users_in_room w r))"
    using Cons.prems(1) by (intro domains_eq) simp
  have "add_hosts (remdups (hs @ map domain_of (users_in_room w r))) rs w =
     (Inr (remdups (remdups (hs @ map domain_of (users_in_room w r)) @
        concat (map (\<lambda>r. map domain_of (users_in_room w r)) rs))), w)"
    using Cons.prems(1) by (intro Cons.IH) simp_all
  then show ?case using assms(1) ds
    by (simp add: get_current_user_in_room_def collab_def remdups_remdups_append)
qed

lemma notify_eq:
  assumes nf: "fault w = (\<lambda>c. None)" and cn: "can_notify w u"
  shows "notify_device_update u ds w = (Inr (), notified w u ds)"
proof -
  obtain d where d: "get_domain_from_id u = Inr d"
    using cn valid_id_domain by (auto simp: can_notify_def)
  have f: "\<And>c. fault w c = None" using nf by simp
  show ?thesis
  proof (cases "d = server_name w")
    case True
    then have "list_all (\<lambda>r. list_all valid_id (users_in_room w r)) (rooms_for_user w u)"
      using cn d by (simp add: can_notify_def)
    then have hs: "add_hosts [] (rooms_for_user w u) w =
       (Inr (remdups ([] @ concat (map (\<lambda>r. map domain_of (users_in_room w r))
                                      (rooms_for_user w u)))), w)"
      by (intro add_hosts_eq f) simp_all
    show ?thesis
      unfolding notify_device_update_def bind_def
      by (simp add: get_rooms_for_user_def is_mine_id_def collab_def return_def f d True hs
          add_device_change_to_streams_def on_new_event_def send_all_ok
          notified_def interested_hosts_def)
  next
    case False
    show ?thesis
      unfolding notify_device_update_def bind_def
      by (simp add: get_rooms_for_user_def is_mine_id_def collab_def return_def f d False
          add_device_change_to_streams_def on_new_event_def
          notified_def interested_hosts_def)
  qed
qed


lemma notified_fields:
  "stream_pos (notified w u ds) = stream_pos w + 1"
  "changes (notified w u ds) = changes w @ [(stream_pos w + 1, u, ds, interested_hosts w u)]"
  "events (notified w u ds) = events w @ [(stream_pos w + 1, rooms_for_user w u)]"
  "pokes (notified w u ds) = pokes w @ interested_hosts w u"
  "notif_only w (notified w u ds)"
  by (simp_all add: notified_def notif_only_def)

subsection \<open>C3: \<^verbatim>\<open>delete_device\<close>\<close>

lemma filter_absent_device:
  "(u, d) \<notin> set (map (\<lambda>(u, d, n). (u, d)) xs) \<Longrightarrow>
   filter (\<lambda>(u', d', n). (u', d') \<noteq> (u, d)) xs = xs"
  by (induction xs) auto

lemma cleanup_effect:
  assumes nf: "fault w = (\<lambda>c. None)" and cn: "can_notify w u"
  shows "\<exists>w'. bind (user_delete_access_tokens u d) (\<lambda>x.
               bind (delete_e2e_keys_by_device u d) (\<lambda>x.
               notify_device_update u [PStr d])) w = (Inr (), w') \<and>
           devices w' = devices w \<and>
           access_tokens w' = filter (\<lambda>(u', d', t). (u', d') \<noteq> (u, d)) (access_tokens w) \<and>
           e2e_keys w' = filter (\<lambda>(u', d', k). (u', d') \<noteq> (u, d)) (e2e_keys w) \<and>
           notifications w' = notifications w @ [(u, [PStr d])]"
proof -
  define w1 where
    "w1 = w\<lparr>access_tokens := filter (\<lambda>(u', d', t). (u', d') \<noteq> (u, d)) (access_tokens w)\<rparr>"
  define w2 where
    "w2 = w1\<lparr>e2e_keys := filter (\<lambda>(u', d', k). (u', d') \<noteq> (u, d)) (e2e_keys w1)\<rparr>"
  have s1: "user_delete_access_tokens u d w = (Inr (), w1)"
    using nf by (simp add: user_delete_access_tokens_def collab_def w1_def)
  have s2: "delete_e2e_keys_by_device u d w1 = (Inr (), w2)"
    using nf by (simp add: delete_e2e_keys_by_device_def collab_def w1_def w2_def)
  have "fault w2 = (\<lambda>c. None)" "can_notify w2 u"
    using nf cn by (simp_all add: can_notify_def w1_def w2_def)
  then obtain w' where n: "notify_device_update u [PStr d] w2 = (Inr (), w')"
    using notify_ok by blast
  have fr: "notif_only w2 w'" using notify_frame [of w2 u "[PStr d]"] n by simp
  have nt: "notifications w' = notifications w2 @ [(u, [PStr d])]"
    using notify_returns [OF n] .
  have run: "bind (user_delete_access_tokens u d) (\<lambda>x.
               bind (delete_e2e_keys_by_device u d) (\<lambda>x.
               notify_device_update u [PStr d])) w = (Inr (), w')"
    by (simp only: bind_def s1 s2 n prod.case sum.case)
  have "devices w' = devices w"
    "access_tokens w' = filter (\<lambda>(u', d', t). (u', d') \<noteq> (u, d)) (access_tokens w)"
    "e2e_keys w' = filter (\<lambda>(u', d', k). (u', d') \<noteq> (u, d)) (e2e_keys w)"
    "notifications w' = notifications w @ [(u, [PStr d])]"
    using fr nt by (simp_all add: notif_only_def notifications_def w1_def w2_def)
  with run show ?thesis by blast
qed

lemma delete_device_effect:
  assumes nf: "fault w = (\<lambda>c. None)" and cn: "can_notify w u"
  shows "\<exists>w'. delete_device u d w = (Inr (), w') \<and>
           devices w' = filter (\<lambda>(u', d', n). (u', d') \<noteq> (u, d)) (devices w) \<and>
           access_tokens w' = filter (\<lambda>(u', d', t). (u', d') \<noteq> (u, d)) (access_tokens w) \<and>
           e2e_keys w' = filter (\<lambda>(u', d', k). (u', d') \<noteq> (u, d)) (e2e_keys w) \<and>
           notifications w' = notifications w @ [(u, [PStr d])]"
proof (cases "device_exists w u d")
  case True
  define w0 where "w0 = w\<lparr>devices := filter (\<lambda>(u', d', n). (u', d') \<noteq> (u, d)) (devices w)\<rparr>"
  have s0: "store_delete_device u d w = (Inr (), w0)"
    using nf True by (simp add: store_delete_device_def collab_def w0_def)
  have "fault w0 = (\<lambda>c. None)" "can_notify w0 u"
    using nf cn by (simp_all add: can_notify_def w0_def)
  from cleanup_effect [OF this, of d] obtain w' where
    "bind (user_delete_access_tokens u d) (\<lambda>x.
       bind (delete_e2e_keys_by_device u d) (\<lambda>x.
       notify_device_update u [PStr d])) w0 = (Inr (), w')"
    "devices w' = devices w0"
    "access_tokens w' = filter (\<lambda>(u', d', t). (u', d') \<noteq> (u, d)) (access_tokens w0)"
    "e2e_keys w' = filter (\<lambda>(u', d', k). (u', d') \<noteq> (u, d)) (e2e_keys w0)"
    "notifications w' = notifications w0 @ [(u, [PStr d])]"
    by blast
  moreover have "notifications w0 = notifications w" "access_tokens w0 = access_tokens w"
    "e2e_keys w0 = e2e_keys w"
    "devices w0 = filter (\<lambda>(u', d', n). (u', d') \<noteq> (u, d)) (devices w)"
    by (simp_all add: w0_def notifications_def)
  ultimately show ?thesis
    by (simp only: delete_device_def s0 prod.case sum.case) blast
next
  case False
  have s0: "store_delete_device u d w = (Inl (StoreError 404 ''No row found''), w)"
    using nf False by (simp add: store_delete_device_def collab_def)
  have same: "filter (\<lambda>(u', d', n). (u', d') \<noteq> (u, d)) (devices w) = devices w"
    using False filter_absent_device [of u d "devices w"] by (simp add: device_exists_def)
  from cleanup_effect [OF nf cn, of d] show ?thesis
    by (simp only: delete_device_def s0 prod.case sum.case error.case if_True same refl)
qed

lemma delete_device_eq:
  assumes nf: "fault w = (\<lambda>c. None)" and cn: "can_notify w u"
  shows "delete_device u d w =
     (Inr (),
      notified
        (w\<lparr>devices := filter (\<lambda>(u', d', n). (u', d') \<noteq> (u, d)) (devices w),
           access_tokens := filter (\<lambda>(u', d', t). (u', d') \<noteq> (u, d)) (access_tokens w),
           e2e_keys := filter (\<lambda>(u', d', k). (u', d') \<noteq> (u, d)) (e2e_keys w)\<rparr>)
        u [PStr d])"
proof -
  define w0 where
    "w0 = w\<lparr>devices := filter (\<lambda>(u', d', n). (u', d') \<noteq> (u, d)) (devices w)\<rparr>"
  define w1 where
    "w1 = w0\<lparr>access_tokens := filter (\<lambda>(u', d', t). (u', d') \<noteq> (u, d)) (access_tokens w0)\<rparr>"
  define w2 where
    "w2 = w1\<lparr>e2e_keys := filter (\<lambda>(u', d', k). (u', d') \<noteq> (u, d)) (e2e_keys w1)\<rparr>"
  have s1: "user_delete_access_tokens u d w0 = (Inr (), w1)"
    using nf by (simp add: user_delete_access_tokens_def collab_def w0_def w1_def)
  have s2: "delete_e2e_keys_by_device u d w1 = (Inr (), w2)"
    using nf by (simp add: delete_e2e_keys_by_device_def collab_def w0_def w1_def w2_def)
  have "fault w2 = (\<lambda>c. None)" "can_notify w2 u"
    using nf cn by (simp_all add: can_notify_def w0_def w1_def w2_def)
  then have n: "notify_device_update u [PStr d] w2 = (Inr (), notified w2 u [PStr d])"
    by (rule notify_eq)
  have tail: "bind (user_delete_access_tokens u d) (\<lambda>x.
               bind (delete_e2e_keys_by_device u d) (\<lambda>x.
               notify_device_update u [PStr d])) w0 = (Inr (), notified w2 u [PStr d])"
    by (simp only: bind_def s1 s2 n prod.case sum.case)
  have w2: "w2 = w\<lparr>devices := filter (\<lambda>(u', d', n). (u', d') \<noteq> (u, d)) (devices w),
           access_tokens := filter (\<lambda>(u', d', t). (u', d') \<noteq> (u, d)) (access_tokens w),
           e2e_keys := filter (\<lambda>(u', d', k). (u', d') \<noteq> (u, d)) (e2e_keys w)\<rparr>"
    by (simp add: w0_def w1_def w2_def)
  show ?thesis
  proof (cases "device_exists w u d")
    case True
    have s0: "store_delete_device u d w = (Inr (), w0)"
      using nf True by (simp add: store_delete_device_def collab_def w0_def)
    show ?thesis
      unfolding w2 [symmetric]
      by (simp only: delete_device_def s0 tail prod.case sum.case)
  next
    case False
    have s0: "store_delete_device u d w = (Inl (StoreError 404 ''No row found''), w)"
      using nf False by (simp add: store_delete_device_def collab_def)
    have "filter (\<lambda>(u', d', n). (u', d') \<noteq> (u, d)) (devices w) = devices w"
      using False filter_absent_device [of u d "devices w"] by (simp add: device_exists_def)
    then have "w0 = w" by (simp add: w0_def)
    then show ?thesis
      unfolding w2 [symmetric] using tail
      by (simp only: delete_device_def s0 prod.case sum.case error.case if_True refl)
  qed
qed

text \<open>
  C3 as the handler has it: when no collaborator call fails and the ids are valid,
  \<^verbatim>\<open>delete_device\<close> returns successfully whether the device exists or not; afterwards
  the device is not stored, the access tokens scoped to it are revoked, its key material
  is deleted, and exactly one change notification with that device id has been emitted:
  one change at the next stream position, recorded with the interested hosts, one event
  for the notifier with that position and the rooms of the user, and one poke for each
  interested host. Nothing else changes. The storage's not-found (code 404) is passed
  over and the calls that follow run all the same, so the notification is emitted for an
  absent device too.
\<close>

theorem delete_device_cleans_and_notifies:
  assumes "fault w = (\<lambda>c. None)" and "can_notify w u"
  shows "delete_device u d w =
           (Inr (),
            notified
              (w\<lparr>devices := filter (\<lambda>(u', d', n). (u', d') \<noteq> (u, d)) (devices w),
                 access_tokens := filter (\<lambda>(u', d', t). (u', d') \<noteq> (u, d)) (access_tokens w),
                 e2e_keys := filter (\<lambda>(u', d', k). (u', d') \<noteq> (u, d)) (e2e_keys w)\<rparr>)
              u [PStr d]) \<and>
         fst (delete_device u d w) = Inr () \<and>
         devices (snd (delete_device u d w))
           = filter (\<lambda>(u', d', n). (u', d') \<noteq> (u, d)) (devices w) \<and>
         \<not> device_exists (snd (delete_device u d w)) u d \<and>
         access_tokens (snd (delete_device u d w))
           = filter (\<lambda>(u', d', t). (u', d') \<noteq> (u, d)) (access_tokens w) \<and>
         e2e_keys (snd (delete_device u d w))
           = filter (\<lambda>(u', d', k). (u', d') \<noteq> (u, d)) (e2e_keys w) \<and>
         notifications (snd (delete_device u d w)) = notifications w @ [(u, [PStr d])] \<and>
         changes (snd (delete_device u d w))
           = changes w @ [(stream_pos w + 1, u, [PStr d], interested_hosts w u)] \<and>
         events (snd (delete_device u d w))
           = events w @ [(stream_pos w + 1, rooms_for_user w u)] \<and>
         pokes (snd (delete_device u d w)) = pokes w @ interested_hosts w u"
proof -
  have eq: "delete_device u d w =
           (Inr (),
            notified
              (w\<lparr>devices := filter (\<lambda>(u', d', n). (u', d') \<noteq> (u, d)) (devices w),
                 access_tokens := filter (\<lambda>(u', d', t). (u', d') \<noteq> (u, d)) (access_tokens w),
                 e2e_keys := filter (\<lambda>(u', d', k). (u', d') \<noteq> (u, d)) (e2e_keys w)\<rparr>)
              u [PStr d])"
    using assms by (rule delete_device_eq)
  have "\<not> device_exists (snd (delete_device u d w)) u d"
    unfolding eq by (auto simp: device_exists_def notified_def)
  then show ?thesis
    unfolding eq
    by (simp add: notified_def notifications_def interested_hosts_def)
qed

theorem delete_device_cleans_and_notifies_witness:
  "fault home = (\<lambda>c. None) \<and> can_notify home ''@a:home'' \<and>
   fst (delete_device ''@a:home'' ''D1'' home) = Inr () \<and>
   devices (snd (delete_device ''@a:home'' ''D1'' home)) = [] \<and>
   access_tokens (snd (delete_device ''@a:home'' ''D1'' home)) = [] \<and>
   e2e_keys (snd (delete_device ''@a:home'' ''D1'' home)) = [] \<and>
   notifications (snd (delete_device ''@a:home'' ''D1'' home)) = [(''@a:home'', [PStr ''D1''])] \<and>
   changes (snd (delete_device ''@a:home'' ''D1'' home))
     = [(1, ''@a:home'', [PStr ''D1''], [''remote''])] \<and>
   events (snd (delete_device ''@a:home'' ''D1'' home)) = [(1, [''!r1''])] \<and>
   pokes (snd (delete_device ''@a:home'' ''D1'' home)) = [''remote'']"
proof -
  have f: "fault home = (\<lambda>c. None)"
    by (simp add: home_def)
  have c: "can_notify home ''@a:home''"
    by (simp add: can_notify_def valid_id_def home_def)
  have "devices home = [(''@a:home'', ''D1'', PNone)]"
    "access_tokens home = [(''@a:home'', ''D1'', ''token1'')]"
    "e2e_keys home = [(''@a:home'', ''D1'', PStr ''key1'')]" "notifications home = []"
    "changes home = []" "events home = []" "pokes home = []" "stream_pos home = 0"
    "rooms_for_user home ''@a:home'' = [''!r1'']"
    "interested_hosts home ''@a:home'' = [''remote'']"
    by (simp_all add: home_def notifications_def interested_hosts_def domain_of_def
        get_domain_from_id_def)
  then show ?thesis
    using delete_device_cleans_and_notifies [OF f c, of "''D1''", THEN conjunct2] f c
    by simp
qed

text \<open>
  C3 as it is stated fails: \<^verbatim>\<open>@a:home\<close> has no device \<^verbatim>\<open>D7\<close>, and deleting it returns
  successfully with a change notification for \<^verbatim>\<open>D7\<close>: the change is in the stream, the
  notifier has its event and the interested host is poked.
\<close>

theorem delete_absent_device_notifies:
  "\<not> device_exists home ''@a:home'' ''D7'' \<and>
   notifications home = [] \<and>
   fst (delete_device ''@a:home'' ''D7'' home) = Inr () \<and>
   notifications (snd (delete_device ''@a:home'' ''D7'' home)) = [(''@a:home'', [PStr ''D7''])] \<and>
   changes (snd (delete_device ''@a:home'' ''D7'' home))
     = [(1, ''@a:home'', [PStr ''D7''], [''remote''])] \<and>
   events (snd (delete_device ''@a:home'' ''D7'' home)) = [(1, [''!r1''])] \<and>
   pokes (snd (delete_device ''@a:home'' ''D7'' home)) = [''remote'']"
  by (simp add: home_def device_exists_def notifications_def delete_device_def
      store_delete_device_def collab_def bind_def return_def
      user_delete_access_tokens_def delete_e2e_keys_by_device_def
      notify_device_update_def get_rooms_for_user_def is_mine_id_def get_domain_from_id_def
      get_current_user_in_room_def add_device_change_to_streams_def on_new_event_def
      send_device_messages_def)

subsection \<open>C6: registering a device twice\<close>

lemma register_twice:
  assumes first: "check_device_registered u (Some d) n w = (Inr r, w1)"
  shows "r = d \<and> check_device_registered u (Some d) n' w1 = (Inr d, w1) \<and>
         notifications w1
           = notifications w @ (if device_exists w u d then [] else [(u, [PStr d])])"
proof -
  have f: "fault w StoreDevice = None"
    using first
    by (auto simp: check_device_registered_def bind_def store_device_def collab_def
        split: option.splits)
  show ?thesis
  proof (cases "device_exists w u d")
    case True
    have s: "\<And>m. store_device u d m w = (Inr False, w)"
      using f True by (simp add: store_device_def collab_def)
    have "r = d" "w1 = w"
      using first by (simp_all add: check_device_registered_def bind_def s return_def)
    then show ?thesis using True
      by (simp add: check_device_registered_def bind_def s return_def)
  next
    case False
    define w0 where "w0 = w\<lparr>devices := devices w @ [(u, d, n)]\<rparr>"
    have s: "store_device u d n w = (Inr True, w0)"
      using f False by (simp add: store_device_def collab_def w0_def)
    obtain x where nt: "notify_device_update u [PStr d] w0 = (Inr x, w1)" and r: "r = d"
      using first
      by (auto simp: check_device_registered_def bind_def s return_def
          split: sum.splits prod.splits)
    have fr: "notif_only w0 w1" using notify_frame [of w0 u "[PStr d]"] nt by simp
    have ex: "device_exists w1 u d" "fault w1 StoreDevice = None"
      using fr f by (simp_all add: notif_only_def w0_def device_exists_def)
    have s2: "store_device u d n' w1 = (Inr False, w1)"
      using ex by (simp add: store_device_def collab_def)
    have "notifications w1 = notifications w @ [(u, [PStr d])]"
      using notify_returns [OF nt] by (simp add: notifications_def w0_def)
    then show ?thesis using False r
      by (simp add: check_device_registered_def bind_def s2 return_def)
  qed
qed

text \<open>
  C6: of two calls of \<^verbatim>\<open>check_device_registered\<close> with the same explicit user id and
  device id, the second one, made where the first one returned, returns the same device
  id and leaves everything as it is, also when its display name differs: it emits no
  change notification. The first call emitted one exactly when the device was not yet
  known.
\<close>

theorem register_again_is_noop:
  assumes "check_device_registered u (Some d) n w = (Inr r, w1)"
  shows "r = d \<and> check_device_registered u (Some d) n' w1 = (Inr d, w1) \<and>
         notifications w1
           = notifications w @ (if device_exists w u d then [] else [(u, [PStr d])])"
  using assms by (rule register_twice)

theorem register_again_is_noop_witness:
  "fst (check_device_registered ''@a:home'' (Some ''D2'') PNone home) = Inr ''D2'' \<and>
   check_device_registered ''@a:home'' (Some ''D2'') (PStr ''Phone'')
       (snd (check_device_registered ''@a:home'' (Some ''D2'') PNone home))
     = (Inr ''D2'', snd (check_device_registered ''@a:home'' (Some ''D2'') PNone home)) \<and>
   notifications (snd (check_device_registered ''@a:home'' (Some ''D2'') PNone home))
     = [(''@a:home'', [PStr ''D2''])]"
proof -
  let ?first = "check_device_registered ''@a:home'' (Some ''D2'') PNone home"
  have r: "fst ?first = Inr ''D2''"
    by (simp add: home_def check_device_registered_def store_device_def device_exists_def
        collab_def bind_def return_def notify_device_update_def get_rooms_for_user_def
        is_mine_id_def get_domain_from_id_def get_current_user_in_room_def
        add_device_change_to_streams_def on_new_event_def send_device_messages_def)
  then have e: "?first = (Inr ''D2'', snd ?first)"
    by (simp add: prod_eq_iff)
  have "\<not> device_exists home ''@a:home'' ''D2''" "notifications home = []"
    by (simp_all add: home_def device_exists_def notifications_def)
  then show ?thesis
    using register_again_is_noop [OF e, of "PStr ''Phone''"] r by simp
qed

subsection \<open>C7: a generated device id\<close>

lemma upper_example: "upper ''abcdefghij'' = ''ABCDEFGHIJ''"
  by (simp add: upper_def upper_char_def)

lemma autogen_collide:
  assumes "fault w StoreDevice = None" and "a < 5" and "device_exists w u (candidate w 0)"
  shows "autogen_device_id u n a w
           = autogen_device_id u n (a + 1) (w\<lparr>rand_count := rand_count w + 1\<rparr>)"
  using assms
  by (subst autogen_device_id.simps)
     (simp add: random_string_def store_device_def collab_def candidate_def device_exists_def)

lemma autogen_fresh:
  assumes "fault w StoreDevice = None" and "a < 5" and "\<not> device_exists w u (candidate w 0)"
  shows "autogen_device_id u n a w
           = bind (notify_device_update u [PStr (candidate w 0)]) (\<lambda>x. return (candidate w 0))
               (w\<lparr>rand_count := rand_count w + 1,
                  devices := devices w @ [(u, candidate w 0, n)]\<rparr>)"
  using assms
  by (subst autogen_device_id.simps)
     (simp add: random_string_def store_device_def collab_def candidate_def device_exists_def)

lemma autogen_collisions:
  assumes "fault w StoreDevice = None" and "a + k \<le> 5"
    and "\<forall>j<k. device_exists w u (candidate w j)"
  shows "autogen_device_id u n a w
           = autogen_device_id u n (a + k) (w\<lparr>rand_count := rand_count w + k\<rparr>)"
  using assms
proof (induction k arbitrary: a w)
  case 0
  show ?case by simp
next
  case (Suc k)
  let ?w1 = "w\<lparr>rand_count := rand_count w + 1\<rparr>"
  have d: "\<And>j. device_exists ?w1 u (candidate ?w1 j) = device_exists w u (candidate w (Suc j))"
    by (simp add: candidate_def device_exists_def)
  have 1: "autogen_device_id u n a w = autogen_device_id u n (a + 1) ?w1"
    using Suc.prems by (intro autogen_collide) auto
  have p1: "fault ?w1 StoreDevice = None" using Suc.prems(1) by simp
  have p2: "a + 1 + k \<le> 5" using Suc.prems(2) by simp
  have p3: "\<forall>j<k. device_exists ?w1 u (candidate ?w1 j)"
    using Suc.prems(3) d by auto
  have "autogen_device_id u n (a + 1) ?w1
          = autogen_device_id u n (a + 1 + k) (?w1\<lparr>rand_count := rand_count ?w1 + k\<rparr>)"
    using p1 p2 p3 by (rule Suc.IH)
  with 1 show ?case by (simp add: add.commute add.left_commute)
qed

lemma autogen_exhausted:
  "autogen_device_id u n 5 w = (Inl (StoreError 500 ''Couldn't generate a device ID.''), w)"
  by (subst autogen_device_id.simps) simp

lemma autogen_all_collide:
  assumes "fault w StoreDevice = None" and "\<forall>j<5. device_exists w u (candidate w j)"
  shows "check_device_registered u None n w
           = (Inl (StoreError 500 ''Couldn't generate a device ID.''),
              w\<lparr>rand_count := rand_count w + 5\<rparr>)"
  using autogen_collisions [of w 0 5 u n] assms
  by (simp add: check_device_registered_def autogen_exhausted)

lemma autogen_first_fresh:
  assumes nf: "fault w = (\<lambda>c. None)" and cn: "can_notify w u" and k: "k < 5"
    and coll: "\<forall>j<k. device_exists w u (candidate w j)"
    and fresh: "\<not> device_exists w u (candidate w k)"
  shows "\<exists>w'. check_device_registered u None n w = (Inr (candidate w k), w') \<and>
           devices w' = devices w @ [(u, candidate w k, n)] \<and>
           notifications w' = notifications w @ [(u, [PStr (candidate w k)])] \<and>
           rand_count w' = rand_count w + k + 1"
proof -
  let ?wk = "w\<lparr>rand_count := rand_count w + k\<rparr>"
  let ?c = "candidate w k"
  let ?w1 = "?wk\<lparr>rand_count := rand_count ?wk + 1, devices := devices ?wk @ [(u, ?c, n)]\<rparr>"
  have f: "fault w StoreDevice = None" using nf by simp
  have ck: "candidate ?wk 0 = ?c" by (simp add: candidate_def)
  have 1: "autogen_device_id u n 0 w = autogen_device_id u n (0 + k) ?wk"
    using f k coll by (intro autogen_collisions) auto
  have 2: "autogen_device_id u n k ?wk
        = bind (notify_device_update u [PStr ?c]) (\<lambda>x. return ?c) ?w1"
    using autogen_fresh [of ?wk k u n] f k fresh by (simp add: ck device_exists_def)
  have "fault ?w1 = (\<lambda>c. None)" "can_notify ?w1 u"
    using nf cn by (simp_all add: can_notify_def)
  then obtain w' where nt: "notify_device_update u [PStr ?c] ?w1 = (Inr (), w')"
    using notify_ok by blast
  have fr: "notif_only ?w1 w'" using notify_frame [of ?w1 u "[PStr ?c]"] nt by simp
  have "notifications w' = notifications ?w1 @ [(u, [PStr ?c])]"
    using notify_returns [OF nt] .
  then have "devices w' = devices w @ [(u, ?c, n)]"
    "notifications w' = notifications w @ [(u, [PStr ?c])]"
    "rand_count w' = rand_count w + k + 1"
    using fr by (simp_all add: notif_only_def notifications_def)
  moreover have "check_device_registered u None n w = (Inr ?c, w')"
    using 1 2 nt by (simp add: check_device_registered_def bind_def return_def)
  ultimately show ?thesis by blast
qed

lemma autogen_first_fresh_eq:
  assumes nf: "fault w = (\<lambda>c. None)" and cn: "can_notify w u" and k: "k < 5"
    and coll: "\<forall>j<k. device_exists w u (candidate w j)"
    and fresh: "\<not> device_exists w u (candidate w k)"
  shows "check_device_registered u None n w =
     (Inr (candidate w k),
      notified (w\<lparr>rand_count := rand_count w + k + 1,
                  devices := devices w @ [(u, candidate w k, n)]\<rparr>) u [PStr (candidate w k)])"
proof -
  let ?wk = "w\<lparr>rand_count := rand_count w + k\<rparr>"
  let ?c = "candidate w k"
  let ?w1 = "?wk\<lparr>rand_count := rand_count ?wk + 1, devices := devices ?wk @ [(u, ?c, n)]\<rparr>"
  have f: "fault w StoreDevice = None" using nf by simp
  have ck: "candidate ?wk 0 = ?c" by (simp add: candidate_def)
  have 1: "autogen_device_id u n 0 w = autogen_device_id u n (0 + k) ?wk"
    using f k coll by (intro autogen_collisions) auto
  have 2: "autogen_device_id u n k ?wk
        = bind (notify_device_update u [PStr ?c]) (\<lambda>x. return ?c) ?w1"
    using autogen_fresh [of ?wk k u n] f k fresh by (simp add: ck device_exists_def)
  have "fault ?w1 = (\<lambda>c. None)" "can_notify ?w1 u"
    using nf cn by (simp_all add: can_notify_def)
  then have nt: "notify_device_update u [PStr ?c] ?w1 = (Inr (), notified ?w1 u [PStr ?c])"
    by (rule notify_eq)
  have w1: "?w1 = w\<lparr>rand_count := rand_count w + k + 1, devices := devices w @ [(u, ?c, n)]\<rparr>"
    by simp
  have "check_device_registered u None n w = (Inr ?c, notified ?w1 u [PStr ?c])"
    using 1 2 nt by (simp add: check_device_registered_def bind_def return_def)
  then show ?thesis unfolding w1 .
qed

text \<open>
  C7: without a device id, \<^verbatim>\<open>check_device_registered\<close> tries random candidates. When
  the first five candidates all exist already, it fails after exactly five attempts
  (five random strings are used, nothing else changes) with the storage error of code
  500 and the message of the source, which is what the specification calls
  AllocationExhausted. When the candidate of attempt \<open>k\<close> (counted from 0, below five)
  is the first fresh one, the call returns it, a device id that did not exist, stores
  the device, and emits one change notification for that single device: one change at
  the next stream position, recorded with the interested hosts, one event for the
  notifier with that position and the rooms of the user, and one poke for each
  interested host.
\<close>

theorem autogenerated_device_id:
  assumes "fault w = (\<lambda>c. None)" and "can_notify w u"
  shows "((\<forall>j<5. device_exists w u (candidate w j)) \<longrightarrow>
            check_device_registered u None n w
              = (Inl (StoreError 500 ''Couldn't generate a device ID.''),
                 w\<lparr>rand_count := rand_count w + 5\<rparr>)) \<and>
         (k < 5 \<and> (\<forall>j<k. device_exists w u (candidate w j)) \<and>
          \<not> device_exists w u (candidate w k) \<longrightarrow>
            check_device_registered u None n w
              = (Inr (candidate w k),
                 notified (w\<lparr>rand_count := rand_count w + k + 1,
                               devices := devices w @ [(u, candidate w k, n)]\<rparr>)
                   u [PStr (candidate w k)]) \<and>
            fst (check_device_registered u None n w) = Inr (candidate w k) \<and>
            devices (snd (check_device_registered u None n w))
              = devices w @ [(u, candidate w k, n)] \<and>
            notifications (snd (check_device_registered u None n w))
              = notifications w @ [(u, [PStr (candidate w k)])] \<and>
            rand_count (snd (check_device_registered u None n w)) = rand_count w + k + 1 \<and>
            changes (snd (check_device_registered u None n w))
              = changes w @
                  [(stream_pos w + 1, u, [PStr (candidate w k)], interested_hosts w u)] \<and>
            events (snd (check_device_registered u None n w))
              = events w @ [(stream_pos w + 1, rooms_for_user w u)] \<and>
            pokes (snd (check_device_registered u None n w))
              = pokes w @ interested_hosts w u)"
proof (intro conjI impI)
  assume "\<forall>j<5. device_exists w u (candidate w j)"
  then show "check_device_registered u None n w
      = (Inl (StoreError 500 ''Couldn't generate a device ID.''),
         w\<lparr>rand_count := rand_count w + 5\<rparr>)"
    using assms(1) by (intro autogen_all_collide) auto
next
  assume a: "k < 5 \<and> (\<forall>j<k. device_exists w u (candidate w j)) \<and>
    \<not> device_exists w u (candidate w k)"
  have eq: "check_device_registered u None n w =
     (Inr (candidate w k),
      notified (w\<lparr>rand_count := rand_count w + k + 1,
                  devices := devices w @ [(u, candidate w k, n)]\<rparr>) u [PStr (candidate w k)])"
    using a by (intro autogen_first_fresh_eq assms) auto
  show "check_device_registered u None n w
      = (Inr (candidate w k),
         notified (w\<lparr>rand_count := rand_count w + k + 1,
                       devices := devices w @ [(u, candidate w k, n)]\<rparr>)
           u [PStr (candidate w k)])"
    by (rule eq)
  show "fst (check_device_registered u None n w) = Inr (candidate w k)"
    "devices (snd (check_device_registered u None n w)) = devices w @ [(u, candidate w k, n)]"
    "notifications (snd (check_device_registered u None n w))
       = notifications w @ [(u, [PStr (candidate w k)])]"
    "rand_count (snd (check_device_registered u None n w)) = rand_count w + k + 1"
    "changes (snd (check_device_registered u None n w))
       = changes w @ [(stream_pos w + 1, u, [PStr (candidate w k)], interested_hosts w u)]"
    "events (snd (check_device_registered u None n w))
       = events w @ [(stream_pos w + 1, rooms_for_user w u)]"
    "pokes (snd (check_device_registered u None n w)) = pokes w @ interested_hosts w u"
    unfolding eq
    by (simp_all add: notified_def notifications_def interested_hosts_def)
qed

theorem autogenerated_device_id_witness:
  "check_device_registered ''@a:home'' None PNone crowded
     = (Inl (StoreError 500 ''Couldn't generate a device ID.''), crowded\<lparr>rand_count := 5\<rparr>) \<and>
   fst (check_device_registered ''@a:home'' None PNone
          (crowded\<lparr>rand := (\<lambda>i. if i < 2 then ''abcdefghij'' else ''klmnopqrst'')\<rparr>))
     = Inr ''KLMNOPQRST'' \<and>
   notifications (snd (check_device_registered ''@a:home'' None PNone
          (crowded\<lparr>rand := (\<lambda>i. if i < 2 then ''abcdefghij'' else ''klmnopqrst'')\<rparr>)))
     = [(''@a:home'', [PStr ''KLMNOPQRST''])] \<and>
   rand_count (snd (check_device_registered ''@a:home'' None PNone
          (crowded\<lparr>rand := (\<lambda>i. if i < 2 then ''abcdefghij'' else ''klmnopqrst'')\<rparr>))) = 3 \<and>
   changes (snd (check_device_registered ''@a:home'' None PNone
          (crowded\<lparr>rand := (\<lambda>i. if i < 2 then ''abcdefghij'' else ''klmnopqrst'')\<rparr>)))
     = [(1, ''@a:home'', [PStr ''KLMNOPQRST''], [''remote''])] \<and>
   events (snd (check_device_registered ''@a:home'' None PNone
          (crowded\<lparr>rand := (\<lambda>i. if i < 2 then ''abcdefghij'' else ''klmnopqrst'')\<rparr>)))
     = [(1, [''!r1''])] \<and>
   pokes (snd (check_device_registered ''@a:home'' None PNone
          (crowded\<lparr>rand := (\<lambda>i. if i < 2 then ''abcdefghij'' else ''klmnopqrst'')\<rparr>)))
     = [''remote'']"
proof -
  let ?w = "crowded\<lparr>rand := (\<lambda>i. if i < 2 then ''abcdefghij'' else ''klmnopqrst'')\<rparr>"
  have u2: "upper ''klmnopqrst'' = ''KLMNOPQRST''"
    by (simp add: upper_def upper_char_def)
  have f: "fault crowded = (\<lambda>c. None)" "fault ?w = (\<lambda>c. None)"
    by (simp_all add: crowded_def home_def)
  have c: "can_notify crowded ''@a:home''" "can_notify ?w ''@a:home''"
    by (simp_all add: can_notify_def valid_id_def crowded_def home_def)
  have all: "\<forall>j<5. device_exists crowded ''@a:home'' (candidate crowded j)"
    by (simp add: candidate_def crowded_def home_def upper_example device_exists_def)
  have two: "(2::nat) < 5 \<and> (\<forall>j<2. device_exists ?w ''@a:home'' (candidate ?w j)) \<and>
      \<not> device_exists ?w ''@a:home'' (candidate ?w 2)"
    by (simp add: candidate_def crowded_def home_def upper_example u2 device_exists_def)
  have x: "candidate ?w 2 = ''KLMNOPQRST''" "notifications ?w = []" "rand_count ?w = 0"
    "rand_count crowded = 0" "changes ?w = []" "events ?w = []" "pokes ?w = []"
    "stream_pos ?w = 0" "rooms_for_user ?w ''@a:home'' = [''!r1'']"
    "rooms_for_user crowded ''@a:home'' = [''!r1'']"
    "interested_hosts ?w ''@a:home'' = [''remote'']"
    by (simp_all add: candidate_def crowded_def home_def u2 notifications_def
        interested_hosts_def domain_of_def get_domain_from_id_def)
  have 1: "check_device_registered ''@a:home'' None PNone crowded
     = (Inl (StoreError 500 ''Couldn't generate a device ID.''), crowded\<lparr>rand_count := 5\<rparr>)"
    using autogenerated_device_id [OF f(1) c(1), where n = PNone, THEN conjunct1] all x(4)
    by simp
  have 2: "fst (check_device_registered ''@a:home'' None PNone ?w) = Inr ''KLMNOPQRST'' \<and>
     notifications (snd (check_device_registered ''@a:home'' None PNone ?w))
       = [(''@a:home'', [PStr ''KLMNOPQRST''])] \<and>
     rand_count (snd (check_device_registered ''@a:home'' None PNone ?w)) = 3 \<and>
     changes (snd (check_device_registered ''@a:home'' None PNone ?w))
       = [(1, ''@a:home'', [PStr ''KLMNOPQRST''], [''remote''])] \<and>
     events (snd (check_device_registered ''@a:home'' None PNone ?w)) = [(1, [''!r1''])] \<and>
     pokes (snd (check_device_registered ''@a:home'' None PNone ?w)) = [''remote'']"
    using autogenerated_device_id [OF f(2) c(2), where n = PNone and k = 2,
        THEN conjunct2, THEN mp, OF two, THEN conjunct2]
    by (simp add: x)
  from 1 2 show ?thesis by blast
qed

subsection \<open>C9: \<^verbatim>\<open>get_device_list_changes\<close>\<close>

lemma changed_in_rooms_eq:
  assumes "fault w GetRoomsForUser = None"
  shows "changed_in_rooms rs acc cs w
           = (Inr (acc \<union> {u \<in> set cs. rs \<inter> set (rooms_for_user w u) \<noteq> {}}), w)"
proof (induction cs arbitrary: acc)
  case Nil
  show ?case by simp
next
  case (Cons c cs)
  show ?case using assms
    by (auto simp: Cons get_rooms_for_user_def collab_def)
qed

lemma get_device_list_changes_eq:
  assumes "fault w GetUserWhoseDevicesChanged = None" and "fault w GetRoomsForUser = None"
  shows "get_device_list_changes user_id room_ids from_key w
           = (Inr {u \<in> changed_since w from_key.
                     set room_ids \<inter> set (rooms_for_user w u) \<noteq> {}}, w)"
  using assms
  by (simp add: get_device_list_changes_def bind_def get_user_whose_devices_changed_def
      collab_def changed_in_rooms_eq changed_since_def)

text \<open>
  C9 as the handler has it: when the two storage calls do not fail,
  \<^verbatim>\<open>get_device_list_changes(user_id, room_ids, from_key)\<close> answers exactly the set of
  users whose device lists changed after \<open>from_key\<close> and who are in at least one of the
  rooms \<open>room_ids\<close>, and changes nothing. The answer is a set, so a user in several of the
  rooms is in it once, and it is empty when no user changed. The answer does not depend
  on \<open>user_id\<close>: the calling user is in it like any other user.
\<close>

theorem device_list_changes_in_rooms:
  assumes "fault w GetUserWhoseDevicesChanged = None" and "fault w GetRoomsForUser = None"
  shows "get_device_list_changes user_id room_ids from_key w
           = (Inr {u \<in> changed_since w from_key.
                     set room_ids \<inter> set (rooms_for_user w u) \<noteq> {}}, w)"
  using assms by (rule get_device_list_changes_eq)

theorem device_list_changes_in_rooms_witness:
  "get_device_list_changes ''@b:remote'' [''!r1'', ''!r2''] 0 home_changed
     = (Inr {''@a:home''}, home_changed) \<and>
   get_device_list_changes ''@b:remote'' [''!r2''] 0 home_changed = (Inr {}, home_changed) \<and>
   get_device_list_changes ''@b:remote'' [''!r1'', ''!r2''] 1 home_changed
     = (Inr {}, home_changed)"
proof -
  have f: "fault home_changed GetUserWhoseDevicesChanged = None"
    "fault home_changed GetRoomsForUser = None"
    by (simp_all add: home_changed_def home_def)
  have c: "changed_since home_changed 0 = {''@a:home''}" "changed_since home_changed 1 = {}"
    "changed_since home_changed (Suc 0) = {}"
    by (simp_all add: changed_since_def home_changed_def)
  have r: "rooms_for_user home_changed ''@a:home'' = [''!r1'']"
    by (simp add: home_changed_def home_def)
  have s: "{u \<in> changed_since home_changed 0.
             set [''!r1'', ''!r2''] \<inter> set (rooms_for_user home_changed u) \<noteq> {}} = {''@a:home''}"
    "{u \<in> changed_since home_changed 0.
        set [''!r2''] \<inter> set (rooms_for_user home_changed u) \<noteq> {}} = {}"
    "{u \<in> changed_since home_changed 1.
        set [''!r1'', ''!r2''] \<inter> set (rooms_for_user home_changed u) \<noteq> {}} = {}"
    by (auto simp: c r)
  show ?thesis
    using device_list_changes_in_rooms [OF f, of "''@b:remote''" "[''!r1'', ''!r2'']" 0]
      device_list_changes_in_rooms [OF f, of "''@b:remote''" "[''!r2'']" 0]
      device_list_changes_in_rooms [OF f, of "''@b:remote''" "[''!r1'', ''!r2'']" 1]
    by (simp only: s simp_thms)
qed

text \<open>
  C9 as it is stated, with a result of other users only, fails: \<^verbatim>\<open>@a:home\<close> changed and
  is in the room \<^verbatim>\<open>!r1\<close>, and the call made for \<^verbatim>\<open>@a:home\<close> answers \<^verbatim>\<open>@a:home\<close>.
\<close>

theorem changes_include_caller:
  "fst (get_device_list_changes ''@a:home'' [''!r1''] 0 home_changed) = Inr {''@a:home''}"
  by (simp add: get_device_list_changes_def bind_def get_user_whose_devices_changed_def
      collab_def get_rooms_for_user_def home_changed_def home_def)

subsection \<open>Inbound updates\<close>

lemma bind_lift_Inr: "bind (lift (Inr x)) f = f x"
  by (rule ext) (simp add: bind_def lift_def)


lemma bind_return: "bind (return x) f = f x"
  by (rule ext) (simp add: bind_def return_def)

lemma resync_decision_single:
  assumes "fault w GetDeviceListRemoteExtremity = None"
  shows "resync_decision u (PList [p]) w =
     (case py_str (stored_extremity w u) of
        Inl e \<Rightarrow> (Inl e, w)
      | Inr a \<Rightarrow> (case py_str p of Inl e \<Rightarrow> (Inl e, w) | Inr b \<Rightarrow> (Inr (a \<noteq> b), w)))"
  using assms
  by (simp add: resync_decision_def bind_def lift_def return_def
      get_device_list_remote_extremity_def collab_def stored_extremity_def
      split: sum.splits)

lemma resync_decision_not_single:
  assumes "length ps \<noteq> 1"
  shows "resync_decision u (PList ps) w = (Inr True, w)"
  using assms by (simp add: resync_decision_def bind_lift_Inr return_def)

lemma single_or_not: "(\<exists>p. ps = [p]) \<or> length ps \<noteq> 1"
  by (cases ps; cases "tl ps") auto

lemma not_single:
  assumes "length ps \<noteq> 1"
  shows "\<not> prev_matches ps e" and "comparable ps e"
  using assms by (cases ps; cases "tl ps"; auto)+








lemma incoming_unfold:
  assumes "edu_for edu u did sid ps" and "get_domain_from_id u = Inr origin"
  shows "incoming_device_list_update origin edu =
     bind (resync_decision u (PList ps)) (\<lambda>resync.
       if resync
       then
         bind (query_user_devices origin u) (\<lambda>result.
         bind (lift (py_getitem result ''stream_id'')) (\<lambda>stream_id.
         bind (lift (py_getitem result ''devices'')) (\<lambda>devs.
         bind (update_remote_device_list_cache u devs stream_id) (\<lambda>x.
         bind (lift (case py_iter devs of
                       Inl e \<Rightarrow> Inl e
                     | Inr ds \<Rightarrow> map_err (\<lambda>device. py_getitem device ''device_id'') ds))
           (\<lambda>device_ids.
         notify_device_update u device_ids)))))
       else
         bind (update_remote_device_list_cache_entry u did (edu_device_content edu) sid)
           (\<lambda>x. notify_device_update u [did]))"
  using assms
  by (simp add: incoming_device_list_update_def edu_for_def bind_lift_Inr bind_return)








lemma resync_decision_returns:
  assumes "resync_decision u (PList ps) w = (Inr b, w1)"
  shows "w1 = w \<and> b = (\<not> prev_matches ps (stored_extremity w u))"
proof (cases "length ps = 1")
  case True
  then obtain p where p: "ps = [p]" using single_or_not [of ps] by auto
  show ?thesis
  proof (cases "fault w GetDeviceListRemoteExtremity")
    case None
    show ?thesis
      using assms unfolding p resync_decision_single [OF None]
      by (auto split: sum.splits)
  next
    case (Some err)
    then show ?thesis using assms p
      by (simp add: resync_decision_def bind_lift_Inr bind_def
          get_device_list_remote_extremity_def collab_def)
  qed
next
  case False
  then show ?thesis
    using assms not_single(1) [OF False] resync_decision_not_single [OF False] by simp
qed








lemma uncomparable_raises:
  assumes e: "edu_for edu u did sid ps" and d: "get_domain_from_id u = Inr origin"
    and f: "fault w GetDeviceListRemoteExtremity = None"
    and c: "\<not> comparable ps (stored_extremity w u)"
  shows "incoming_device_list_update origin edu w = (Inl UnicodeEncodeError, w)"
proof -
  from c obtain p where p: "ps = [p]"
    using single_or_not [of ps] not_single(2) [of ps] by auto
  have "err = UnicodeEncodeError" if "py_str v = Inl err" for v err
    using that by (cases v) (auto split: if_splits)
  then have "resync_decision u (PList [p]) w = (Inl UnicodeEncodeError, w)"
    using c unfolding p resync_decision_single [OF f]
    by (auto split: sum.splits simp: has_str_def)
  then show ?thesis
    by (simp add: incoming_unfold [OF e d] bind_def p)
qed

lemmas run_defs =
  is_ascii_def incoming_device_list_update_def dict_item_def dict_get_def bind_def lift_def return_def
  get_domain_from_id_def resync_decision_def get_device_list_remote_extremity_def collab_def
  update_remote_device_list_cache_entry_def edu_device_content_def
  notify_device_update_def get_rooms_for_user_def is_mine_id_def
  add_device_change_to_streams_def on_new_event_def query_user_devices_def

lemma edu_device_content_keys:
  "map_of (edu_device_content edu) k =
     (if k \<in> {''user_id'', ''device_id'', ''stream_id'', ''prev_ids''} then None
      else map_of edu k)"
  by (simp add: edu_device_content_def delete_conv)

lemma edu_d9_shape:
  "edu_for edu_d9 ''@b:remote'' (PStr ''D9'') (PStr ''7'') [PStr ''6'']"
  "get_domain_from_id ''@b:remote'' = Inr ''remote''"
  by (simp_all add: edu_for_def edu_d9_def dict_item_def dict_get_def get_domain_from_id_def)

subsection \<open>C1: the resync decision\<close>



subsection \<open>C2: a failed resync query\<close>

text \<open>
  C2: when an inbound update takes the full-resync path and the query to the origin
  fails, the error of the query is the error of \<^verbatim>\<open>_incoming_device_list_update\<close>, and
  nothing but the log of queries has changed: the stored extremity and the stored devices
  of the user are what they were.
\<close>

theorem failed_query_leaves_cache:
  assumes "edu_for edu u did sid ps" and "get_domain_from_id u = Inr origin"
    and "resync_decision u (PList ps) w = (Inr True, w1)"
    and "fed_response w (length (queries w)) origin u = Inl err"
  shows "incoming_device_list_update origin edu w
           = (Inl err, w\<lparr>queries := queries w @ [(origin, u)]\<rparr>) \<and>
         remote_extremity (snd (incoming_device_list_update origin edu w)) = remote_extremity w \<and>
         remote_cache (snd (incoming_device_list_update origin edu w)) = remote_cache w"
proof -
  have "w1 = w" using resync_decision_returns [OF assms(3)] by simp
  then have "incoming_device_list_update origin edu w
      = (Inl err, w\<lparr>queries := queries w @ [(origin, u)]\<rparr>)"
    using assms(3,4)
    by (simp add: incoming_unfold [OF assms(1,2)] bind_def query_user_devices_def)
  then show ?thesis by simp
qed

theorem failed_query_leaves_cache_witness:
  "incoming_device_list_update ''remote'' edu_d9 home5
     = (Inl (TransportError ''timeout''), home5\<lparr>queries := [(''remote'', ''@b:remote'')]\<rparr>) \<and>
   remote_extremity (snd (incoming_device_list_update ''remote'' edu_d9 home5)) ''@b:remote''
     = Some (PStr ''5'') \<and>
   remote_cache (snd (incoming_device_list_update ''remote'' edu_d9 home5)) ''@b:remote'' = []"
proof -
  have r: "resync_decision ''@b:remote'' (PList [PStr ''6'']) home5 = (Inr True, home5)"
    by (simp add: resync_decision_def bind_def lift_def return_def is_ascii_def
        get_device_list_remote_extremity_def collab_def home5_def home_def)
  have q: "fed_response home5 (length (queries home5)) ''remote'' ''@b:remote''
      = Inl (TransportError ''timeout'')"
    by (simp add: home5_def home_def)
  have x: "queries home5 = []" "remote_extremity home5 ''@b:remote'' = Some (PStr ''5'')"
    "remote_cache home5 ''@b:remote'' = []"
    by (simp_all add: home5_def home_def)
  show ?thesis
    using failed_query_leaves_cache [OF edu_d9_shape r q] by (simp add: x)
qed

subsection \<open>C4: what the incremental path stores\<close>

text \<open>
  C4 says that the incremental path stores the EDU without its four envelope keys
  \<^verbatim>\<open>user_id\<close>, \<^verbatim>\<open>device_id\<close>, \<^verbatim>\<open>stream_id\<close> and \<^verbatim>\<open>prev_id\<close>, and sets the extremity to
  the stream id of the EDU. The extremity is set so, but the handler removes the key
  \<^verbatim>\<open>prev_ids\<close>, not the key \<^verbatim>\<open>prev_id\<close> that it reads: for the EDU of the scenario the
  stored device info still has \<^verbatim>\<open>prev_id\<close>.
\<close>

theorem prev_id_is_kept:
  "fst (incoming_device_list_update ''remote'' edu_d9 home) = Inr () \<and>
   queries (snd (incoming_device_list_update ''remote'' edu_d9 home)) = [] \<and>
   remote_cache (snd (incoming_device_list_update ''remote'' edu_d9 home)) ''@b:remote''
     = [(PStr ''D9'', PDict [(''prev_id'', PList [PStr ''6'']), (''keys'', PStr ''k'')])] \<and>
   remote_extremity (snd (incoming_device_list_update ''remote'' edu_d9 home)) ''@b:remote''
     = Some (PStr ''7'')"
  by (simp add: run_defs edu_d9_def home_def)

subsection \<open>C5: the stored extremity\<close>















end
